theory Spec2Isabelle
  imports Complex_Main "HOL-Library.AList" "HOL-Library.Multiset"
begin

section \<open>The batch session script \<^verbatim>\<open>jam_session.py\<close>\<close>

text \<open>
  The script sub-classes the session type of an external peak-bagging library. Its own
  code is the helper \<^verbatim>\<open>lc_to_lk\<close> (the light-curve resolver), the constructor
  \<^verbatim>\<open>jam.__init__\<close> and the batch call \<^verbatim>\<open>jam.__call__\<close>. The model below follows
  these three functions line by line. Exceptions are values (\<open>Inl\<close>), the module-level
  table \<^verbatim>\<open>failed_lk_query\<close> and everything printed or warned are carried in an explicit
  \<open>world\<close>, and the calls into the file system, the archive and the fitting library are
  functions of an environment record.
\<close>

subsection \<open>Exceptions\<close>

text \<open>
  An exception is its class name (\<^verbatim>\<open>type(ex).__name__\<close>), the text of
  \<^verbatim>\<open>repr(ex.args)\<close> and the text of \<^verbatim>\<open>str(ex)\<close>. Every exception of the model is an
  instance of \<^verbatim>\<open>Exception\<close>.
\<close>

datatype pyexc = PyExc (cls: string) (args_repr: string) (str_of: string)

fun show_nat :: "nat \<Rightarrow> string" where
  "show_nat n =
     (if n < 10 then [''0123456789'' ! n]
      else show_nat (n div 10) @ [''0123456789'' ! (n mod 10)])"

definition py_repr :: "string \<Rightarrow> string" where
  \<comment> \<open>\<^verbatim>\<open>repr\<close> of a string without characters to escape: double quotes are used when
      the text holds a single quote and no double quote.\<close>
  "py_repr s =
     (if CHR 0x27 \<in> set s \<and> CHR 0x22 \<notin> set s then [CHR 0x22] @ s @ [CHR 0x22]
      else [CHR 0x27] @ s @ [CHR 0x27])"

definition key_error :: "nat \<Rightarrow> pyexc" where
  \<comment> \<open>what \<^verbatim>\<open>.loc\<close> and \<^verbatim>\<open>.drop\<close> raise for a label that is not in the index\<close>
  "key_error i = PyExc ''KeyError'' (''('' @ show_nat i @ '',)'') (show_nat i)"

definition type_error :: "string \<Rightarrow> pyexc" where
  "type_error msg = PyExc ''TypeError'' (''('' @ py_repr msg @ '',)'') msg"

definition attribute_error :: "string \<Rightarrow> pyexc" where
  "attribute_error msg = PyExc ''AttributeError'' (''('' @ py_repr msg @ '',)'') msg"

definition unbound_local_error :: "string \<Rightarrow> pyexc" where
  \<comment> \<open>reading a local variable that no executed statement has assigned;
      \<^verbatim>\<open>UnboundLocalError\<close> is a subclass of \<^verbatim>\<open>NameError\<close>\<close>
  "unbound_local_error v =
     (let msg = ''local variable '' @ py_repr v @ '' referenced before assignment''
      in PyExc ''UnboundLocalError'' (''('' @ py_repr msg @ '',)'') msg)"

definition index_error :: pyexc where
  "index_error =
     PyExc ''IndexError''
       (''('' @ py_repr ''index -1 is out of bounds for axis 0 with size 0'' @ '',)'')
       ''index -1 is out of bounds for axis 0 with size 0''"

definition nl :: string where
  "nl = [CHR 0x0A]"

subsection \<open>Cell values, rows and tables\<close>

record lightcurve =
  time :: "real list"
  flux :: "real list"
  targetid :: string

text \<open>
  A cell of the \<^verbatim>\<open>timeseries\<close> or \<^verbatim>\<open>psd\<close> column holds any Python object. The
  code probes three things of it: whether it is a \<^verbatim>\<open>str\<close>, its truth value, and its
  \<^verbatim>\<open>__module__\<close> attribute. The constructors are the classes these probes tell apart:
  \<^item> \<open>Str s\<close>: a string (a file path);
  \<^item> \<open>Empty\<close>: \<^verbatim>\<open>None\<close>, or any other value that is false and not a string;
  \<^item> \<open>Series lc\<close>: an object whose class is defined in \<^verbatim>\<open>lk.lightcurve\<close>;
  \<^item> \<open>Foreign m\<close>: a true object whose class is defined in another module \<open>m\<close>
    (a periodogram, say);
  \<^item> \<open>Bare\<close>: a true value of a built-in type, which has no \<^verbatim>\<open>__module__\<close>
    attribute: a tuple or a list, a number other than zero, the float \<^verbatim>\<open>nan\<close> that
    \<^verbatim>\<open>pandas.read_csv\<close> stores for a blank field.
  A series object is taken to be true, as a Python object is unless its class says
  otherwise. Floating-point numbers are taken as reals.
\<close>

datatype pyval = Str string | Empty | Series lightcurve | Foreign string | Bare

fun truthy :: "pyval \<Rightarrow> bool" where
  "truthy (Str s) = (s \<noteq> [])"
| "truthy Empty = False"
| "truthy (Series lc) = True"
| "truthy (Foreign m) = True"
| "truthy Bare = True"

record row =
  ID :: string
  numax :: real
  numax_err :: real
  dnu :: real
  dnu_err :: real
  teff :: real
  teff_err :: real
  bp_rp :: real
  bp_rp_err :: real
  timeseries :: pyval
  psd :: pyval
  cadence :: "string option"
  month :: "string option"
  sector :: "string option"
  campaign :: "string option"
  quarter :: "string option"
  mission :: "string option"

text \<open>
  A data frame is the list of its rows in order, each with its index label.
  \<^verbatim>\<open>read_csv\<close> and \<^verbatim>\<open>from_records\<close> label the rows \<open>0, 1, 2, \<dots>\<close> (\<open>from_rows\<close>).
\<close>

type_synonym dataframe = "(nat \<times> row) list"

definition from_rows :: "row list \<Rightarrow> dataframe" where
  "from_rows rs = zip [0..<length rs] rs"

definition loc :: "dataframe \<Rightarrow> nat \<Rightarrow> row option" where
  \<comment> \<open>\<^verbatim>\<open>vardf.loc[i, col]\<close>: the row labelled \<open>i\<close>; \<open>None\<close> is the \<^verbatim>\<open>KeyError\<close>\<close>
  "loc vardf i = map_of vardf i"

definition at_set :: "dataframe \<Rightarrow> nat \<Rightarrow> pyval \<Rightarrow> dataframe" where
  \<comment> \<open>\<^verbatim>\<open>vardf.at[i, 'timeseries'] = v\<close>; the code only reaches it for a label that
      \<open>loc\<close> has just found\<close>
  "at_set vardf i v = map (\<lambda>(l, r). if l = i then (l, r\<lparr>timeseries := v\<rparr>) else (l, r)) vardf"

definition drop_label :: "dataframe \<Rightarrow> nat \<Rightarrow> pyexc + dataframe" where
  \<comment> \<open>\<^verbatim>\<open>vardf.drop(i)\<close>: a new frame without the rows labelled \<open>i\<close>\<close>
  "drop_label vardf i =
     (if i \<in> fst ` set vardf then Inr (filter (\<lambda>(l, r). l \<noteq> i) vardf)
      else Inl (key_error i))"

definition reset_index :: "dataframe \<Rightarrow> dataframe" where
  \<comment> \<open>\<^verbatim>\<open>vardf.reset_index()\<close>: the rows in order, labelled from 0. pandas keeps the
      old labels in a new column \<^verbatim>\<open>index\<close>, which nothing reads afterwards.\<close>
  "reset_index vardf = from_rows (map snd vardf)"

subsection \<open>The failure ledger and the world\<close>

text \<open>
  \<^verbatim>\<open>failed_lk_query\<close> is a module-level data frame with one column \<^verbatim>\<open>error\<close>. A
  row label of it is a star identifier, or whatever the name \<^verbatim>\<open>id\<close> denotes where no
  star identifier is bound to it: Python's built-in function \<^verbatim>\<open>id\<close> (\<open>Builtin_id\<close>).
  \<^verbatim>\<open>failed_lk_query.at[k, 'error'] = v\<close> overwrites the row labelled \<open>k\<close> or appends
  one, which is \<open>AList.update\<close>.
\<close>

datatype ledger_key = Star_id string | Builtin_id

type_synonym ledger = "(ledger_key \<times> string) list"

record star =
  star_ID :: string
  star_pg :: pyval
  star_numax :: "real \<times> real"
  star_dnu :: "real \<times> real"
  star_teff :: "real \<times> real"
  star_bp_rp :: "real \<times> real"
  star_path :: "string option"
  star_f :: "real list"

record config =
  bw_fac :: real
  tune :: nat
  norders :: nat
  model_type :: string
  verbose :: bool
  make_plots :: bool
  store_chains :: bool
  nthreads :: nat

datatype event =
    Print string
  | Warn string
  | Query string "string option" bool "(string \<times> string option) list"
  | Fit star config

record world =
  failed_lk_query :: ledger
  trace :: "event list"

definition emit :: "event \<Rightarrow> world \<Rightarrow> world" where
  "emit ev w = w\<lparr>trace := trace w @ [ev]\<rparr>"

definition ledger_at :: "ledger_key \<Rightarrow> string \<Rightarrow> world \<Rightarrow> world" where
  "ledger_at k v w = w\<lparr>failed_lk_query := AList.update k v (failed_lk_query w)\<rparr>"

subsection \<open>The collaborators\<close>

datatype dictlike =
    PathStr string
  | Tabular "(string \<times> pyval list) list"
  | Unsupported

record init_args =
  arg_ID :: "string list option"
  arg_numax :: "real list option"
  arg_dnu :: "real list option"
  arg_teff :: "real list option"
  arg_bp_rp :: "real list option"
  arg_timeseries :: pyval
  arg_psd :: pyval
  arg_dictlike :: dictlike
  arg_use_cached :: bool
  arg_cadence :: "string option"
  arg_campaign :: "string option"
  arg_sector :: "string option"
  arg_month :: "string option"
  arg_quarter :: "string option"
  arg_mission :: "string option"
  arg_path :: "string option"
  arg_download_dir :: "string option"

text \<open>
  What the script calls and does not define. \<open>genfromtxt\<close> stands for the whole of
  \<^verbatim>\<open>np.genfromtxt(path, usecols=(0, 1)).T\<close> unpacked into two columns: the rows of
  the file, or the exception. \<open>fit\<close> is the call of a star object: \<open>None\<close> when it
  returns, the exception when it raises.
\<close>

record env =
  genfromtxt :: "string \<Rightarrow> pyexc + (real \<times> real) list"
  query_lightkurve ::
    "string \<Rightarrow> string option \<Rightarrow> bool \<Rightarrow> (string \<times> string option) list \<Rightarrow> pyexc + lightcurve"
  read_csv :: "string \<Rightarrow> pyexc + dataframe"
  from_records :: "(string \<times> pyval list) list \<Rightarrow> pyexc + dataframe"
  organize_sess_dataframe :: "dataframe \<Rightarrow> pyexc + dataframe"
  organize_sess_input :: "init_args \<Rightarrow> pyexc + dataframe"
  format_col :: "dataframe \<Rightarrow> pyval \<Rightarrow> string \<Rightarrow> pyexc + dataframe"
  to_periodogram :: "row \<Rightarrow> pyexc + pyval"
  frequency :: "pyval \<Rightarrow> pyexc + real list"
  fit :: "star \<Rightarrow> config \<Rightarrow> pyexc option"

definition arr_to_lk :: "real list \<Rightarrow> real list \<Rightarrow> string \<Rightarrow> lightcurve" where
  \<comment> \<open>Modelled from the spec: the library helper \<^verbatim>\<open>arr_to_lk(t, d, name, 'timeseries')\<close>
      is not under src/; the spec has the loaded file "tagged as a raw series", that is a
      series of the two columns under the row's identifier.\<close>
  "arr_to_lk t d name = \<lparr>time = t, flux = d, targetid = name\<rparr>"

definition sort_lc :: "lightcurve \<Rightarrow> lightcurve" where
  \<comment> \<open>Modelled from the spec: the library helper \<^verbatim>\<open>sort_lc\<close> is not under src/; the
      spec has it "sort [the series] by timestamp (ascending) in place". The rows of the
      series are reordered together.\<close>
  "sort_lc lc =
     (let rows = sort_key fst (zip (time lc) (flux lc))
      in lc\<lparr>time := map fst rows, flux := map snd rows\<rparr>)"

definition sort_lc_obj :: "pyval \<Rightarrow> pyexc + pyval" where
  \<comment> \<open>\<^verbatim>\<open>sort_lc\<close> on the object of a cell: a value that is no series has no
      attribute \<^verbatim>\<open>time\<close>\<close>
  "sort_lc_obj v =
     (case v of
        Series lc \<Rightarrow> Inr (Series (sort_lc lc))
      | _ \<Rightarrow> Inl (attribute_error ''object has no attribute time''))"

subsection \<open>\<^verbatim>\<open>lc_to_lk\<close>, lines 39 to 80\<close>

definition tinyoffset :: real where
  "tinyoffset = 1"

definition D_of :: "row \<Rightarrow> (string \<times> string option) list" where
  \<comment> \<open>lines 54 to 56: the observation context of the row\<close>
  "D_of r =
     [(''cadence'', cadence r), (''month'', month r), (''sector'', sector r),
      (''campaign'', campaign r), (''quarter'', quarter r), (''mission'', mission r)]"

definition query_failed_message :: "string \<Rightarrow> pyexc \<Rightarrow> string" where
  \<comment> \<open>lines 62 and 63\<close>
  "query_failed_message sid exc =
     ''Lightkurve query failed on '' @ sid @ '' due to:'' @ nl @ str_of exc @ nl @
     ''This target will be removed from the sample.''"

definition sort_if_present :: "dataframe \<Rightarrow> nat \<Rightarrow> pyexc + dataframe" where
  \<comment> \<open>lines 73 to 77: the \<^verbatim>\<open>KeyError\<close> of a dropped row is swallowed; the series is
      sorted in place, so the cell shows the sorted series\<close>
  "sort_if_present vardf i =
     (case loc vardf i of
        None \<Rightarrow> Inr vardf
      | Some r \<Rightarrow>
          if truthy (timeseries r) then
            (case sort_lc_obj (timeseries r) of
               Inl e \<Rightarrow> if cls e = ''KeyError'' then Inr vardf else Inl e
             | Inr v \<Rightarrow> Inr (at_set vardf i v))
          else Inr vardf)"

definition lc_to_lk_step ::
  "env \<Rightarrow> string option \<Rightarrow> bool \<Rightarrow> nat \<Rightarrow> string \<Rightarrow> dataframe \<Rightarrow> world \<Rightarrow>
     (pyexc + dataframe) \<times> world" where
  \<comment> \<open>one pass of the loop body, lines 46 to 77, for the pair \<^verbatim>\<open>i, id\<close> (here \<open>sid\<close>)\<close>
  "lc_to_lk_step e download_dir use_cached i sid vardf w =
     (case loc vardf i of
        None \<Rightarrow> (Inl (key_error i), w)
      | Some r \<Rightarrow>
          (case timeseries r of
             Str p \<Rightarrow>
               (case genfromtxt e p of
                  Inl ex \<Rightarrow> (Inl ex, w)
                | Inr td \<Rightarrow>
                    let t = map fst td;
                        d = map (\<lambda>x. x + tinyoffset) (map snd td)
                    in (sort_if_present (at_set vardf i (Series (arr_to_lk t d (ID r)))) i, w))
           | Empty \<Rightarrow>
               if truthy (psd r) then (sort_if_present vardf i, w)
               else
                 let D = D_of r;
                     w1 = emit (Query sid download_dir use_cached D) w
                 in (case query_lightkurve e sid download_dir use_cached D of
                       Inr lk_lc \<Rightarrow> (sort_if_present (at_set vardf i (Series lk_lc)) i, w1)
                     | Inl exc \<Rightarrow>
                         let w2 = ledger_at (Star_id sid) (str_of exc)
                                    (emit (Print (query_failed_message sid exc)) w1)
                         in (case drop_label vardf i of
                               Inl ex \<Rightarrow> (Inl ex, w2)
                             | Inr vardf' \<Rightarrow> (sort_if_present vardf' i, w2)))
           | Series lc \<Rightarrow> (sort_if_present vardf i, w)
           | Foreign m \<Rightarrow>
               (Inl (type_error ''Can't handle this type of time series object''), w)
           | Bare \<Rightarrow>
               (Inl (attribute_error ''object has no attribute __module__''), w)))"

fun lc_to_lk_loop ::
  "env \<Rightarrow> string option \<Rightarrow> bool \<Rightarrow> (nat \<times> string) list \<Rightarrow> dataframe \<Rightarrow> world \<Rightarrow>
     (pyexc + dataframe) \<times> world" where
  "lc_to_lk_loop e download_dir use_cached [] vardf w = (Inr vardf, w)"
| "lc_to_lk_loop e download_dir use_cached ((i, sid) # rest) vardf w =
     (case lc_to_lk_step e download_dir use_cached i sid vardf w of
        (Inl ex, w') \<Rightarrow> (Inl ex, w')
      | (Inr vardf', w') \<Rightarrow> lc_to_lk_loop e download_dir use_cached rest vardf' w')"

definition lc_to_lk ::
  "env \<Rightarrow> dataframe \<Rightarrow> string option \<Rightarrow> bool \<Rightarrow> world \<Rightarrow> (pyexc + dataframe) \<times> world" where
  \<comment> \<open>\<^verbatim>\<open>enumerate(vardf['ID'])\<close> is taken from the frame the function was given: the
      loop runs over every position of it, also after \<^verbatim>\<open>vardf\<close> names a smaller frame\<close>
  "lc_to_lk e vardf download_dir use_cached w =
     (case lc_to_lk_loop e download_dir use_cached
             (zip [0..<length vardf] (map (ID \<circ> snd) vardf)) vardf w of
        (Inl ex, w') \<Rightarrow> (Inl ex, w')
      | (Inr vardf', w') \<Rightarrow> (Inr (reset_index vardf'), w'))"

subsection \<open>\<^verbatim>\<open>jam.__init__\<close>, lines 88 to 144\<close>

record session =
  stars :: "star option list"
  pb_model_type :: "string option"

definition arg_truthy :: "'a list option \<Rightarrow> bool" where
  \<comment> \<open>the truth value of an argument that is \<^verbatim>\<open>None\<close> or a sequence\<close>
  "arg_truthy a = (case a of None \<Rightarrow> False | Some xs \<Rightarrow> xs \<noteq> [])"

definition unrecognized_message :: string where
  "unrecognized_message =
     ''Unrecognized type in dictlike. Must be able to '' @
     ''convert to dataframe through '' @ ''pandas.DataFrame.from_records()''"

definition ignoring_message :: string where
  "ignoring_message =
     ''Dictlike provided as input, ignoring other '' @ ''input fit parameters.''"

definition after_tabular ::
  "env \<Rightarrow> init_args \<Rightarrow> dataframe option \<Rightarrow> world \<Rightarrow> (pyexc + dataframe option) \<times> world" where
  \<comment> \<open>lines 106 to 110. The local variable \<^verbatim>\<open>vardf\<close> is \<open>None\<close> while no statement
      has assigned it; reading it then raises.\<close>
  "after_tabular e a vardf w =
     (let w1 = (if arg_truthy (arg_ID a) \<or> arg_truthy (arg_numax a) \<or> arg_truthy (arg_dnu a) \<or>
                   arg_truthy (arg_teff a) \<or> arg_truthy (arg_bp_rp a)
                then emit (Warn ignoring_message) w else w)
      in case vardf of
           None \<Rightarrow> (Inl (unbound_local_error ''vardf''), w1)
         | Some df \<Rightarrow>
             (case organize_sess_dataframe e df of
                Inl ex \<Rightarrow> (Inl ex, w1)
              | Inr df' \<Rightarrow> (Inr (Some df'), w1)))"

definition bind_vardf ::
  "env \<Rightarrow> init_args \<Rightarrow> world \<Rightarrow> (pyexc + dataframe option) \<times> world" where
  \<comment> \<open>lines 95 to 119: the two branches that assign \<^verbatim>\<open>vardf\<close>. The result is the
      variable after them: \<open>Some\<close> the frame, or \<open>None\<close> when it is still unassigned.\<close>
  "bind_vardf e a w =
     (case arg_dictlike a of
        PathStr p \<Rightarrow>
          (case read_csv e p of
             Inl ex \<Rightarrow> (Inl ex, w)
           | Inr df \<Rightarrow> after_tabular e a (Some df) w)
      | Tabular t \<Rightarrow>
          (case from_records e t of
             Inr df \<Rightarrow> after_tabular e a (Some df) w
           | Inl ex \<Rightarrow>
               if cls ex = ''TypeError''
               then after_tabular e a None (emit (Print unrecognized_message) w)
               else (Inl ex, w))
      | Unsupported \<Rightarrow>
          if arg_truthy (arg_ID a) then
            (case organize_sess_input e a of
               Inl ex \<Rightarrow> (Inl ex, w)
             | Inr df \<Rightarrow>
                 (case format_col e df (arg_timeseries a) ''timeseries'' of
                    Inl ex \<Rightarrow> (Inl ex, w)
                  | Inr df1 \<Rightarrow>
                      (case format_col e df1 (arg_psd a) ''psd'' of
                         Inl ex \<Rightarrow> (Inl ex, w)
                       | Inr df2 \<Rightarrow> (Inr (Some df2), w))))
          else (Inr None, w))"

fun lk_to_pg :: "env \<Rightarrow> dataframe \<Rightarrow> pyexc + dataframe" where
  \<comment> \<open>Modelled from the spec: the library helper \<^verbatim>\<open>lk_to_pg\<close> is not under src/; the
      spec has it compute, for every surviving record, the power spectrum and store it in
      the power-spectrum field, and propagate the exceptions of the transform.\<close>
  "lk_to_pg e [] = Inr []"
| "lk_to_pg e ((l, r) # rest) =
     (case to_periodogram e r of
        Inl ex \<Rightarrow> Inl ex
      | Inr pg \<Rightarrow>
          (case lk_to_pg e rest of
             Inl ex \<Rightarrow> Inl ex
           | Inr rest' \<Rightarrow> Inr ((l, r\<lparr>psd := pg\<rparr>) # rest')))"

definition new_star ::
  "env \<Rightarrow> string \<Rightarrow> pyval \<Rightarrow> real \<times> real \<Rightarrow> real \<times> real \<Rightarrow> real \<times> real \<Rightarrow> real \<times> real \<Rightarrow>
     string option \<Rightarrow> pyexc + star" where
  \<comment> \<open>Modelled from the spec: the library class \<^verbatim>\<open>star\<close> is not under src/; the spec
      has the fitting unit hold the identifier, the power spectrum, the four stellar
      parameters with their uncertainties and the output path, and carry the frequency
      axis of its spectrum.\<close>
  "new_star e sid pg nm dn te bp path =
     (case frequency e pg of
        Inl ex \<Rightarrow> Inl ex
      | Inr fs \<Rightarrow>
          Inr \<lparr>star_ID = sid, star_pg = pg, star_numax = nm, star_dnu = dn, star_teff = te,
               star_bp_rp = bp, star_path = path, star_f = fs\<rparr>)"

fun append_stars :: "env \<Rightarrow> dataframe \<Rightarrow> string option \<Rightarrow> nat list \<Rightarrow> pyexc + star list" where
  \<comment> \<open>lines 132 to 139, over \<^verbatim>\<open>range(len(vardf))\<close>\<close>
  "append_stars e vardf path [] = Inr []"
| "append_stars e vardf path (i # rest) =
     (case loc vardf i of
        None \<Rightarrow> Inl (key_error i)
      | Some r \<Rightarrow>
          (case new_star e (ID r) (psd r) (numax r, numax_err r) (dnu r, dnu_err r)
                  (teff r, teff_err r) (bp_rp r, bp_rp_err r) path of
             Inl ex \<Rightarrow> Inl ex
           | Inr st \<Rightarrow>
               (case append_stars e vardf path rest of
                  Inl ex \<Rightarrow> Inl ex
                | Inr sts \<Rightarrow> Inr (st # sts))))"

definition nyquist_message :: "star \<Rightarrow> string" where
  \<comment> \<open>lines 143 and 144: \<^verbatim>\<open>%\<close> binds tighter than \<^verbatim>\<open>+\<close>\<close>
  "nyquist_message st =
     ''Input numax is greater than Nyquist frequeny '' @ (''for '' @ star_ID st)"

fun nyquist_check :: "star list \<Rightarrow> world \<Rightarrow> (pyexc + unit) \<times> world" where
  \<comment> \<open>lines 141 to 144; \<^verbatim>\<open>st.f[-1]\<close> of an empty axis raises\<close>
  "nyquist_check [] w = (Inr (), w)"
| "nyquist_check (st # rest) w =
     (if star_f st = [] then (Inl index_error, w)
      else if fst (star_numax st) > last (star_f st)
      then nyquist_check rest (emit (Warn (nyquist_message st)) w)
      else nyquist_check rest w)"

definition jam_init :: "env \<Rightarrow> init_args \<Rightarrow> world \<Rightarrow> (pyexc + session) \<times> world" where
  "jam_init e a w =
     (case bind_vardf e a w of
        (Inl ex, w1) \<Rightarrow> (Inl ex, w1)
      | (Inr None, w1) \<Rightarrow> (Inl (unbound_local_error ''vardf''), w1)
      | (Inr (Some vardf), w1) \<Rightarrow>
          (case lc_to_lk e vardf (arg_download_dir a) (arg_use_cached a) w1 of
             (Inl ex, w2) \<Rightarrow> (Inl ex, w2)
           | (Inr vardf2, w2) \<Rightarrow>
               (case lk_to_pg e vardf2 of
                  Inl ex \<Rightarrow> (Inl ex, w2)
                | Inr vardf3 \<Rightarrow>
                    (case append_stars e vardf3 (arg_path a) [0..<length vardf3] of
                       Inl ex \<Rightarrow> (Inl ex, w2)
                     | Inr sts \<Rightarrow>
                         (case nyquist_check sts w2 of
                            (Inl ex, w3) \<Rightarrow> (Inl ex, w3)
                          | (Inr u, w3) \<Rightarrow>
                              (Inr \<lparr>stars = map Some sts, pb_model_type = None\<rparr>, w3))))))"

subsection \<open>\<^verbatim>\<open>jam.__call__\<close>, lines 146 to 175\<close>

definition exception_message :: "star \<Rightarrow> pyexc \<Rightarrow> string" where
  \<comment> \<open>lines 171 to 173\<close>
  "exception_message st ex =
     ''Star '' @ star_ID st @ '' produced an exception of type '' @ cls ex @ '' '' @
     ''occurred. Arguments:'' @ nl @ args_repr ex"

fun call_loop ::
  "env \<Rightarrow> config \<Rightarrow> star option list \<Rightarrow> world \<Rightarrow> (pyexc + star option list) \<times> world" where
  \<comment> \<open>lines 161 to 175. A slot that an earlier call has set to \<^verbatim>\<open>None\<close> is not
      callable; the \<^verbatim>\<open>TypeError\<close> is caught and the handler's \<^verbatim>\<open>st.ID\<close> raises.
      In the handler the name \<^verbatim>\<open>id\<close> is bound by no statement of \<^verbatim>\<open>__call__\<close>: it is
      the built-in function.\<close>
  "call_loop e cfg [] w = (Inr [], w)"
| "call_loop e cfg (None # rest) w =
     (Inl (attribute_error ''NoneType object has no attribute ID''), w)"
| "call_loop e cfg (Some st # rest) w =
     (let w1 = emit (Fit st cfg) w in
      case fit e st cfg of
        None \<Rightarrow>
          (case call_loop e cfg rest w1 of
             (Inl ex, w') \<Rightarrow> (Inl ex, w')
           | (Inr slots, w') \<Rightarrow> (Inr (None # slots), w'))
      | Some ex \<Rightarrow>
          (let w2 = ledger_at Builtin_id (str_of ex) (emit (Print (exception_message st ex)) w1)
           in case call_loop e cfg rest w2 of
                (Inl ex', w') \<Rightarrow> (Inl ex', w')
              | (Inr slots, w') \<Rightarrow> (Inr (Some st # slots), w')))"

definition jam_call :: "env \<Rightarrow> config \<Rightarrow> session \<Rightarrow> world \<Rightarrow> (pyexc + session) \<times> world" where
  "jam_call e cfg s w =
     (case call_loop e cfg (stars s) w of
        (Inl ex, w') \<Rightarrow> (Inl ex, w')
      | (Inr slots, w') \<Rightarrow> (Inr \<lparr>stars = slots, pb_model_type = Some (model_type cfg)\<rparr>, w'))"

subsection \<open>The resolver, row by row\<close>

text \<open>
  A second reading of \<^verbatim>\<open>lc_to_lk\<close>, used in the proofs: what the loop body makes of one
  row (\<open>row_outcome\<close>: the exception, the row dropped, or the row kept with its cell
  updated) and what it does to the world (\<open>row_effect\<close>), and the two folded over the
  rows of a table. Lemma \<open>lc_to_lk_rows\<close> below proves that the loop over index labels
  computes exactly this on a table labelled \<open>0, 1, 2, \<dots>\<close>. \<open>fetch_fails\<close> says of a row
  that it is sent to the archive and the query raises.
\<close>

definition row_outcome :: "env \<Rightarrow> string option \<Rightarrow> bool \<Rightarrow> row \<Rightarrow> pyexc + row option" where
  "row_outcome e download_dir use_cached r =
     (case timeseries r of
        Str p \<Rightarrow>
          (case genfromtxt e p of
             Inl ex \<Rightarrow> Inl ex
           | Inr td \<Rightarrow>
               Inr (Some (r\<lparr>timeseries :=
                  Series (sort_lc (arr_to_lk (map fst td)
                    (map (\<lambda>x. x + tinyoffset) (map snd td)) (ID r)))\<rparr>)))
      | Empty \<Rightarrow>
          if truthy (psd r) then Inr (Some r)
          else
            (case query_lightkurve e (ID r) download_dir use_cached (D_of r) of
               Inr lk_lc \<Rightarrow> Inr (Some (r\<lparr>timeseries := Series (sort_lc lk_lc)\<rparr>))
             | Inl exc \<Rightarrow> Inr None)
      | Series lc \<Rightarrow> Inr (Some (r\<lparr>timeseries := Series (sort_lc lc)\<rparr>))
      | Foreign m \<Rightarrow> Inl (type_error ''Can't handle this type of time series object'')
      | Bare \<Rightarrow> Inl (attribute_error ''object has no attribute __module__''))"

definition row_effect :: "env \<Rightarrow> string option \<Rightarrow> bool \<Rightarrow> row \<Rightarrow> world \<Rightarrow> world" where
  "row_effect e download_dir use_cached r w =
     (if timeseries r = Empty \<and> \<not> truthy (psd r) then
        (case query_lightkurve e (ID r) download_dir use_cached (D_of r) of
           Inr lk_lc \<Rightarrow> emit (Query (ID r) download_dir use_cached (D_of r)) w
         | Inl exc \<Rightarrow>
             ledger_at (Star_id (ID r)) (str_of exc)
               (emit (Print (query_failed_message (ID r) exc))
                  (emit (Query (ID r) download_dir use_cached (D_of r)) w)))
      else w)"

fun rows_outcome :: "env \<Rightarrow> string option \<Rightarrow> bool \<Rightarrow> row list \<Rightarrow> pyexc + row list" where
  "rows_outcome e download_dir use_cached [] = Inr []"
| "rows_outcome e download_dir use_cached (r # rest) =
     (case row_outcome e download_dir use_cached r of
        Inl ex \<Rightarrow> Inl ex
      | Inr ro \<Rightarrow>
          (case rows_outcome e download_dir use_cached rest of
             Inl ex \<Rightarrow> Inl ex
           | Inr out \<Rightarrow> Inr ((case ro of None \<Rightarrow> [] | Some r' \<Rightarrow> [r']) @ out)))"

fun rows_effect :: "env \<Rightarrow> string option \<Rightarrow> bool \<Rightarrow> row list \<Rightarrow> world \<Rightarrow> world" where
  "rows_effect e download_dir use_cached [] w = w"
| "rows_effect e download_dir use_cached (r # rest) w =
     (case row_outcome e download_dir use_cached r of
        Inl ex \<Rightarrow> row_effect e download_dir use_cached r w
      | Inr ro \<Rightarrow>
          rows_effect e download_dir use_cached rest (row_effect e download_dir use_cached r w))"

definition fetch_fails :: "env \<Rightarrow> string option \<Rightarrow> bool \<Rightarrow> row \<Rightarrow> bool" where
  "fetch_fails e download_dir use_cached r \<longleftrightarrow>
     timeseries r = Empty \<and> \<not> truthy (psd r) \<and>
     isl (query_lightkurve e (ID r) download_dir use_cached (D_of r))"

subsection \<open>A small batch\<close>

text \<open>
  The data of the examples: star \<open>A\<close> comes with a file of two rows, star \<open>B\<close> has
  neither series nor spectrum and the archive has no data for it, star \<open>C\<close> comes with
  a power spectrum, star \<open>U\<close> comes with a file whose two rows are out of order. The
  fit of \<open>C\<close> does not converge.
\<close>

definition example_row :: "string \<Rightarrow> pyval \<Rightarrow> pyval \<Rightarrow> row" where
  "example_row sid ts ps =
     \<lparr>ID = sid, numax = 100, numax_err = 5, dnu = 8, dnu_err = 1, teff = 5000, teff_err = 80,
      bp_rp = 1, bp_rp_err = 0, timeseries = ts, psd = ps, cadence = None, month = None,
      sector = None, campaign = None, quarter = None, mission = Some ''Kepler''\<rparr>"

definition row_A :: row where
  "row_A = example_row ''A'' (Str ''A.txt'') Empty"

definition row_B :: row where
  "row_B = example_row ''B'' Empty Empty"

definition row_C :: row where
  "row_C = example_row ''C'' Empty (Foreign ''lightkurve.periodogram'')"

definition row_U :: row where
  "row_U = example_row ''U'' (Str ''U.txt'') Empty"

definition row_bad_file :: row where
  "row_bad_file = example_row ''D'' (Str ''missing.txt'') Empty"

definition row_tuple :: row where
  "row_tuple = example_row ''E'' Bare Empty"

definition example_env :: env where
  "example_env =
     \<lparr>genfromtxt = (\<lambda>p. if p = ''A.txt'' then Inr [(1, 10), (2, 20)]
                        else if p = ''U.txt'' then Inr [(2, 10), (1, 20)]
                        else Inl (PyExc ''OSError'' ''(not found,)'' ''not found'')),
      query_lightkurve = (\<lambda>sid dl uc D. Inl (PyExc ''ValueError'' ''(no data,)'' ''no data'')),
      read_csv = (\<lambda>p. if p = ''stars.csv'' then Inr (from_rows [row_A, row_B, row_C])
                      else Inr (from_rows [row_C, row_bad_file, row_A])),
      from_records = (\<lambda>t. Inl (type_error ''cannot convert'')),
      organize_sess_dataframe = (\<lambda>df. Inr df),
      organize_sess_input = (\<lambda>a. Inr []),
      format_col = (\<lambda>df v k. Inr df),
      to_periodogram = (\<lambda>r. Inr (Foreign ''lightkurve.periodogram'')),
      frequency = (\<lambda>pg. Inr [10, 50]),
      fit = (\<lambda>st cfg. if star_ID st = ''C''
                       then Some (PyExc ''RuntimeError'' ''(did not converge,)'' ''did not converge'')
                       else None)\<rparr>"

definition example_args :: "dictlike \<Rightarrow> init_args" where
  "example_args d =
     \<lparr>arg_ID = None, arg_numax = None, arg_dnu = None, arg_teff = None, arg_bp_rp = None,
      arg_timeseries = Empty, arg_psd = Empty, arg_dictlike = d, arg_use_cached = False,
      arg_cadence = None, arg_campaign = None, arg_sector = None, arg_month = None,
      arg_quarter = None, arg_mission = Some ''Kepler'', arg_path = Some ''test/output'',
      arg_download_dir = Some ''.lightkurve-cache''\<rparr>"

definition example_cfg :: config where
  "example_cfg =
     \<lparr>bw_fac = 1, tune = 1500, norders = 9, model_type = ''simple'', verbose = False,
      make_plots = True, store_chains = False, nthreads = 1\<rparr>"

definition empty_world :: world where
  "empty_world = \<lparr>failed_lk_query = [], trace = []\<rparr>"

definition series_A :: lightcurve where
  "series_A = \<lparr>time = [1, 2], flux = [11, 21], targetid = ''A''\<rparr>"

definition example_resolved :: dataframe where
  "example_resolved = from_rows [row_A\<lparr>timeseries := Series series_A\<rparr>, row_C]"

definition query_B :: event where
  "query_B = Query ''B'' (Some ''.lightkurve-cache'') False (D_of row_B)"

definition example_world :: world where
  "example_world =
     \<lparr>failed_lk_query = [(Star_id ''B'', ''no data'')],
      trace = [query_B,
               Print (query_failed_message ''B'' (PyExc ''ValueError'' ''(no data,)'' ''no data''))]\<rparr>"

definition example_star :: "string \<Rightarrow> star" where
  "example_star sid =
     \<lparr>star_ID = sid, star_pg = Foreign ''lightkurve.periodogram'', star_numax = (100, 5),
      star_dnu = (8, 1), star_teff = (5000, 80), star_bp_rp = (1, 0),
      star_path = Some ''test/output'', star_f = [10, 50]\<rparr>"

definition example_session :: session where
  "example_session =
     \<lparr>stars = [Some (example_star ''A''), Some (example_star ''C'')], pb_model_type = None\<rparr>"

definition warned_world :: world where
  "warned_world =
     example_world\<lparr>trace := trace example_world @
        [Warn ''Input numax is greater than Nyquist frequeny for A'',
         Warn ''Input numax is greater than Nyquist frequeny for C'']\<rparr>"

definition example_pg :: dataframe where
  "example_pg =
     from_rows [row_A\<lparr>timeseries := Series series_A, psd := Foreign ''lightkurve.periodogram''\<rparr>,
                row_C]"

definition five_session :: session where
  "five_session =
     \<lparr>stars = map (Some \<circ> example_star) [''A'', ''B'', ''C'', ''D'', ''E''],
      pb_model_type = None\<rparr>"

definition row_foreign :: row where
  "row_foreign = example_row ''F'' (Foreign ''lightkurve.periodogram'') Empty"

definition quiet_env :: env where
  "quiet_env =
     example_env\<lparr>read_csv := (\<lambda>p. Inr (from_rows [row_A, row_C])), fit := (\<lambda>st cfg. None)\<rparr>"

definition quiet_world :: world where
  "quiet_world =
     \<lparr>failed_lk_query = [],
      trace = [Warn ''Input numax is greater than Nyquist frequeny for A'',
               Warn ''Input numax is greater than Nyquist frequeny for C'']\<rparr>"

definition series_U :: lightcurve where
  "series_U = \<lparr>time = [1, 2], flux = [21, 11], targetid = ''U''\<rparr>"

definition resolved_U :: dataframe where
  "resolved_U =
     from_rows [row_A\<lparr>timeseries := Series series_A\<rparr>, row_U\<lparr>timeseries := Series series_U\<rparr>,
                row_C]"

section \<open>Properties\<close>

subsection \<open>The loop over labels is the fold over rows\<close>

lemma loc_mid: "i \<notin> fst ` set pre \<Longrightarrow> loc (pre @ (i, r) # post) i = Some r"
proof -
  assume "i \<notin> fst ` set pre"
  then have "map_of pre i = None" by (simp add: map_of_eq_None_iff)
  then show ?thesis by (simp add: loc_def map_add_def)
qed

lemma loc_absent: "i \<notin> fst ` set df \<Longrightarrow> loc df i = None"
  by (simp add: loc_def map_of_eq_None_iff)

lemma at_set_other: "i \<notin> fst ` set xs \<Longrightarrow> at_set xs i v = xs"
  unfolding at_set_def by (induction xs) auto

lemma at_set_mid:
  "i \<notin> fst ` set pre \<Longrightarrow> i \<notin> fst ` set post \<Longrightarrow>
   at_set (pre @ (i, r) # post) i v = pre @ (i, r\<lparr>timeseries := v\<rparr>) # post"
  using at_set_other [of i pre v] at_set_other [of i post v]
  by (simp add: at_set_def)

lemma filter_other: "i \<notin> fst ` set xs \<Longrightarrow> filter (\<lambda>(l, r). l \<noteq> i) xs = xs"
  by (induction xs) auto

lemma drop_label_mid:
  "i \<notin> fst ` set pre \<Longrightarrow> i \<notin> fst ` set post \<Longrightarrow>
   drop_label (pre @ (i, r) # post) i = Inr (pre @ post)"
  by (simp add: drop_label_def filter_other)

lemma sort_if_present_series:
  "i \<notin> fst ` set pre \<Longrightarrow> i \<notin> fst ` set post \<Longrightarrow> timeseries r = Series lc \<Longrightarrow>
   sort_if_present (pre @ (i, r) # post) i =
     Inr (pre @ (i, r\<lparr>timeseries := Series (sort_lc lc)\<rparr>) # post)"
  by (simp add: sort_if_present_def loc_mid sort_lc_obj_def at_set_mid)

lemma sort_if_present_empty:
  "i \<notin> fst ` set pre \<Longrightarrow> timeseries r = Empty \<Longrightarrow>
   sort_if_present (pre @ (i, r) # post) i = Inr (pre @ (i, r) # post)"
  by (simp add: sort_if_present_def loc_mid)

lemma sort_if_present_absent:
  "i \<notin> fst ` set df \<Longrightarrow> sort_if_present df i = Inr df"
  by (simp add: sort_if_present_def loc_absent)

lemma step_mid:
  assumes "i \<notin> fst ` set pre" "i \<notin> fst ` set post"
  shows "lc_to_lk_step e dl uc i (ID r) (pre @ (i, r) # post) w =
     ((case row_outcome e dl uc r of
         Inl ex \<Rightarrow> Inl ex
       | Inr None \<Rightarrow> Inr (pre @ post)
       | Inr (Some r') \<Rightarrow> Inr (pre @ (i, r') # post)),
      row_effect e dl uc r w)"
proof (cases "timeseries r")
  case (Str p)
  then show ?thesis using assms
    by (simp add: lc_to_lk_step_def row_outcome_def row_effect_def loc_mid at_set_mid
        sort_if_present_series Let_def split: sum.splits)
next
  case Empty
  have "i \<notin> fst ` set (pre @ post)" using assms by auto
  then show ?thesis using Empty assms
    by (simp add: lc_to_lk_step_def row_outcome_def row_effect_def loc_mid at_set_mid
        sort_if_present_series sort_if_present_empty drop_label_mid sort_if_present_absent
        Let_def split: sum.splits)
next
  case (Series lc)
  then show ?thesis using assms
    by (simp add: lc_to_lk_step_def row_outcome_def row_effect_def loc_mid
        sort_if_present_series)
next
  case (Foreign m)
  then show ?thesis using assms
    by (simp add: lc_to_lk_step_def row_outcome_def row_effect_def loc_mid)
next
  case Bare
  then show ?thesis using assms
    by (simp add: lc_to_lk_step_def row_outcome_def row_effect_def loc_mid)
qed

lemma loop_rows:
  "distinct (map fst (pre @ lrs)) \<Longrightarrow>
   (case lc_to_lk_loop e dl uc (map (\<lambda>(l, r). (l, ID r)) lrs) (pre @ lrs) w of
      (res, w') \<Rightarrow> (map_sum id (map snd) res, w')) =
     ((case rows_outcome e dl uc (map snd lrs) of
         Inl ex \<Rightarrow> Inl ex
       | Inr out \<Rightarrow> Inr (map snd pre @ out)),
      rows_effect e dl uc (map snd lrs) w)"
proof (induction lrs arbitrary: pre w)
  case Nil
  then show ?case by simp
next
  case (Cons lr lrs)
  obtain l r where lr: "lr = (l, r)" by (cases lr)
  from Cons.prems lr have fresh: "l \<notin> fst ` set pre" "l \<notin> fst ` set lrs"
    and d1: "distinct (map fst (pre @ lrs))"
    and d2: "distinct (map fst ((pre @ [(l, r')]) @ lrs))" for r'
    by auto
  note step = step_mid [OF fresh, of e dl uc r w]
  show ?case
  proof (cases "row_outcome e dl uc r")
    case (Inl ex)
    then show ?thesis using lr step by simp
  next
    case (Inr ro)
    show ?thesis
    proof (cases ro)
      case None
      then show ?thesis
        using lr Inr step Cons.IH [OF d1, of "row_effect e dl uc r w"]
        by (simp split: sum.splits)
    next
      case (Some r')
      then show ?thesis
        using lr Inr step Cons.IH [OF d2, of r' "row_effect e dl uc r w"]
        by (simp split: sum.splits)
    qed
  qed
qed

lemma lc_to_lk_rows:
  "lc_to_lk e (from_rows rows) dl uc w =
     (map_sum id from_rows (rows_outcome e dl uc rows), rows_effect e dl uc rows w)"
proof -
  let ?df = "from_rows rows"
  have len: "length ?df = length rows" by (simp add: from_rows_def)
  have ids: "zip [0..<length ?df] (map (ID \<circ> snd) ?df) = map (\<lambda>(l, r). (l, ID r)) ?df"
    by (simp add: from_rows_def zip_map2 flip: map_map)
  have sn: "map snd ?df = rows" by (simp add: from_rows_def)
  have d: "distinct (map fst ([] @ ?df))" by (simp add: from_rows_def)
  show ?thesis
    using loop_rows [OF d, of e dl uc w]
    by (auto simp: lc_to_lk_def ids sn reset_index_def split: prod.splits sum.splits)
qed

lemma rows_outcome_append:
  "rows_outcome e dl uc (xs @ ys) =
     (case rows_outcome e dl uc xs of
        Inl ex \<Rightarrow> Inl ex
      | Inr a \<Rightarrow>
          (case rows_outcome e dl uc ys of
             Inl ex \<Rightarrow> Inl ex
           | Inr b \<Rightarrow> Inr (a @ b)))"
  by (induction xs) (auto split: sum.splits)

lemma rows_effect_append:
  "rows_outcome e dl uc xs = Inr a \<Longrightarrow>
   rows_effect e dl uc (xs @ ys) w = rows_effect e dl uc ys (rows_effect e dl uc xs w)"
  by (induction xs arbitrary: a w) (auto split: sum.splits)

lemma row_outcome_None:
  "row_outcome e dl uc r = Inr None \<longleftrightarrow> fetch_fails e dl uc r"
  by (auto simp: row_outcome_def fetch_fails_def split: pyval.splits sum.splits)

lemma row_outcome_Some:
  "row_outcome e dl uc r = Inr (Some r') \<Longrightarrow>
   \<not> fetch_fails e dl uc r \<and> r' = r\<lparr>timeseries := timeseries r'\<rparr>"
  by (auto simp: row_outcome_def fetch_fails_def split: pyval.splits sum.splits if_splits)

lemma rows_outcome_survivors:
  "rows_outcome e dl uc rows = Inr out \<Longrightarrow>
   list_all2 (\<lambda>r' r. r' = r\<lparr>timeseries := timeseries r'\<rparr>) out
     (filter (\<lambda>r. \<not> fetch_fails e dl uc r) rows)"
proof (induction rows arbitrary: out)
  case Nil
  then show ?case by simp
next
  case (Cons r rows)
  from Cons.prems obtain ro rest where
    ro: "row_outcome e dl uc r = Inr ro" and rest: "rows_outcome e dl uc rows = Inr rest"
    and out: "out = (case ro of None \<Rightarrow> [] | Some r' \<Rightarrow> [r']) @ rest"
    by (auto split: sum.splits)
  show ?case
  proof (cases ro)
    case None
    then show ?thesis using ro rest out Cons.IH [OF rest] row_outcome_None [of e dl uc r]
      by simp
  next
    case (Some r')
    then show ?thesis using ro rest out Cons.IH [OF rest] row_outcome_Some [of e dl uc r r']
      by simp
  qed
qed

lemma from_rows_labels: "map fst (from_rows out) = [0..<length out]"
  by (simp add: from_rows_def)

lemma from_rows_rows: "map snd (from_rows out) = out"
  by (simp add: from_rows_def)

lemma length_from_rows: "length (from_rows out) = length out"
  by (simp add: from_rows_def)

lemma loc_from_rows: "i < length out \<Longrightarrow> loc (from_rows out) i = Some (out ! i)"
  using map_of_zip_nth [of "[0..<length out]" out i]
  by (simp add: loc_def from_rows_def)

lemma positional_from_rows:
  "map (loc (from_rows out)) [0..<length out] = map Some out"
  by (rule nth_equalityI) (simp_all add: loc_from_rows)

lemma lc_to_lk_InrD:
  assumes "lc_to_lk e (from_rows rows) dl uc w = (Inr vardf', w')"
  obtains out where "rows_outcome e dl uc rows = Inr out" "vardf' = from_rows out"
    "w' = rows_effect e dl uc rows w"
  using assms unfolding lc_to_lk_rows
  by (cases "rows_outcome e dl uc rows") auto

lemma rows_outcome_ID_list:
  "rows_outcome e dl uc rows = Inr out \<Longrightarrow>
   map ID out = map ID (filter (\<lambda>r. \<not> fetch_fails e dl uc r) rows)"
proof -
  assume "rows_outcome e dl uc rows = Inr out"
  from rows_outcome_survivors [OF this]
  have "list_all2 (\<lambda>r' r. ID r' = ID r) out (filter (\<lambda>r. \<not> fetch_fails e dl uc r) rows)"
    by (rule list_all2_mono) (drule arg_cong [where f = ID], simp)
  then show ?thesis by (induction rule: list_all2_induct) auto
qed

subsection \<open>The ledger and the trace\<close>

lemma ledger_row_effect_other:
  "k \<noteq> Star_id (ID r) \<Longrightarrow>
   map_of (failed_lk_query (row_effect e dl uc r w)) k = map_of (failed_lk_query w) k"
  by (simp add: row_effect_def ledger_at_def emit_def update_conv' split: sum.splits)

lemma ledger_rows_effect_other:
  "k \<notin> Star_id ` ID ` set rows \<Longrightarrow>
   map_of (failed_lk_query (rows_effect e dl uc rows w)) k = map_of (failed_lk_query w) k"
proof (induction rows arbitrary: w)
  case Nil
  then show ?case by simp
next
  case (Cons r rows)
  then have "k \<noteq> Star_id (ID r)" and "k \<notin> Star_id ` ID ` set rows" by auto
  then show ?case
    using Cons.IH [of "row_effect e dl uc r w"] ledger_row_effect_other [of k r e dl uc w]
    by (simp split: sum.splits)
qed

lemma ledger_row_effect_distinct:
  "distinct (map fst (failed_lk_query w)) \<Longrightarrow>
   distinct (map fst (failed_lk_query (row_effect e dl uc r w)))"
  by (simp add: row_effect_def ledger_at_def emit_def distinct_update split: sum.splits)

lemma ledger_rows_effect_distinct:
  "distinct (map fst (failed_lk_query w)) \<Longrightarrow>
   distinct (map fst (failed_lk_query (rows_effect e dl uc rows w)))"
  by (induction rows arbitrary: w) (auto simp: ledger_row_effect_distinct split: sum.splits)

lemma ledger_row_effect_cong:
  "map_of (failed_lk_query wa) k = map_of (failed_lk_query wb) k \<Longrightarrow>
   map_of (failed_lk_query (row_effect e dl uc r wa)) k =
   map_of (failed_lk_query (row_effect e dl uc r wb)) k"
  by (simp add: row_effect_def ledger_at_def emit_def update_conv' split: sum.splits)

lemma ledger_rows_effect_cong:
  "map_of (failed_lk_query wa) k = map_of (failed_lk_query wb) k \<Longrightarrow>
   map_of (failed_lk_query (rows_effect e dl uc rows wa)) k =
   map_of (failed_lk_query (rows_effect e dl uc rows wb)) k"
proof (induction rows arbitrary: wa wb)
  case Nil
  then show ?case by simp
next
  case (Cons r rows)
  note step = ledger_row_effect_cong [OF Cons.prems, of e dl uc r]
  show ?case
  proof (cases "row_outcome e dl uc r")
    case (Inl ex)
    then show ?thesis using step by simp
  next
    case (Inr ro)
    then show ?thesis using Cons.IH [OF step] by simp
  qed
qed

lemma one_entry:
  "distinct (map fst xs) \<Longrightarrow> map_of xs k = Some v \<Longrightarrow>
   length (filter (\<lambda>kv. fst kv = k) xs) = 1"
proof (induction xs)
  case Nil
  then show ?case by simp
next
  case (Cons x xs)
  show ?case
  proof (cases "fst x = k")
    case True
    with Cons.prems have "k \<notin> fst ` set xs" by auto
    then have "filter (\<lambda>kv. fst kv = k) xs = []" by (auto simp: filter_empty_conv)
    with True show ?thesis by simp
  next
    case False
    with Cons show ?thesis by (cases x) (auto split: if_splits)
  qed
qed

lemma row_effect_trace:
  "\<exists>new. trace (row_effect e dl uc r w) = trace w @ new \<and>
     (\<forall>sid a b c. Query sid a b c \<in> set new \<longrightarrow>
        sid = ID r \<and> timeseries r = Empty \<and> \<not> truthy (psd r))"
  by (auto simp: row_effect_def emit_def ledger_at_def split: sum.splits)

lemma rows_effect_trace:
  "\<exists>new. trace (rows_effect e dl uc rows w) = trace w @ new \<and>
     (\<forall>sid a b c. Query sid a b c \<in> set new \<longrightarrow>
        (\<exists>r \<in> set rows. ID r = sid \<and> timeseries r = Empty \<and> \<not> truthy (psd r)))"
proof (induction rows arbitrary: w)
  case Nil
  then show ?case by simp
next
  case (Cons r rows)
  let ?w1 = "row_effect e dl uc r w"
  obtain n1 where n1: "trace ?w1 = trace w @ n1"
    and q1: "\<And>sid a b c. Query sid a b c \<in> set n1 \<Longrightarrow>
              sid = ID r \<and> timeseries r = Empty \<and> \<not> truthy (psd r)"
    using row_effect_trace [of e dl uc r w] by blast
  obtain n2 where n2: "trace (rows_effect e dl uc rows ?w1) = trace ?w1 @ n2"
    and q2: "\<And>sid a b c. Query sid a b c \<in> set n2 \<Longrightarrow>
              \<exists>r \<in> set rows. ID r = sid \<and> timeseries r = Empty \<and> \<not> truthy (psd r)"
    using Cons.IH [of ?w1] by blast
  show ?case
  proof (cases "row_outcome e dl uc r")
    case (Inl ex)
    then have "trace (rows_effect e dl uc (r # rows) w) = trace w @ n1" using n1 by simp
    moreover have "\<forall>sid a b c. Query sid a b c \<in> set n1 \<longrightarrow>
        (\<exists>x \<in> set (r # rows). ID x = sid \<and> timeseries x = Empty \<and> \<not> truthy (psd x))"
      using q1 by auto
    ultimately show ?thesis by blast
  next
    case (Inr ro)
    then have "trace (rows_effect e dl uc (r # rows) w) = trace w @ (n1 @ n2)"
      using n1 n2 by simp
    moreover have "\<forall>sid a b c. Query sid a b c \<in> set (n1 @ n2) \<longrightarrow>
        (\<exists>x \<in> set (r # rows). ID x = sid \<and> timeseries x = Empty \<and> \<not> truthy (psd x))"
      using q1 q2 by (metis Un_iff set_append list.set_intros(1,2))
    ultimately show ?thesis by blast
  qed
qed

subsection \<open>Sorting a series\<close>

lemma sort_lc_sorted: "sorted (time (sort_lc lc))"
  by (simp add: sort_lc_def Let_def)

lemma sort_lc_rows:
  "length (time lc) = length (flux lc) \<Longrightarrow>
   mset (zip (time (sort_lc lc)) (flux (sort_lc lc))) = mset (zip (time lc) (flux lc))"
  by (simp add: sort_lc_def Let_def zip_map_fst_snd)

lemma sort_lc_id:
  "length (time lc) = length (flux lc) \<Longrightarrow> sorted (time lc) \<Longrightarrow>
   time (sort_lc lc) = time lc \<and> flux (sort_lc lc) = flux lc"
  by (simp add: sort_lc_def Let_def sort_key_id_if_sorted)

lemma zip_offset:
  "zip (map fst td) (map ((\<lambda>x. x + c) \<circ> snd) td) = map (\<lambda>(t, d). (t, d + c)) td"
  by (induction td) auto

lemma sort_lc_permutes_flux:
  "sort_lc \<lparr>time = [2, 1], flux = [11, 21], targetid = sid\<rparr> =
     \<lparr>time = [1, 2], flux = [21, 11], targetid = sid\<rparr>"
  by (simp add: sort_lc_def)

subsection \<open>The constructor and the batch call\<close>

lemma lk_to_pg_ids:
  "lk_to_pg e df = Inr df' \<Longrightarrow>
   map fst df' = map fst df \<and> map (ID \<circ> snd) df' = map (ID \<circ> snd) df"
  by (induction e df arbitrary: df' rule: lk_to_pg.induct) (auto split: sum.splits)

lemma new_star_ID:
  "new_star e sid pg nm dn te bp path = Inr st \<Longrightarrow> star_ID st = sid"
  by (auto simp: new_star_def split: sum.splits)

lemma append_stars_ids:
  "append_stars e df path is = Inr sts \<Longrightarrow>
   map Some (map star_ID sts) = map (map_option ID \<circ> loc df) is"
  by (induction "is" arbitrary: sts) (auto split: option.splits sum.splits dest: new_star_ID)

lemma frame_from_rows: "map fst df = [0..<length df] \<Longrightarrow> df = from_rows (map snd df)"
  using zip_map_fst_snd [of df] by (simp add: from_rows_def)

lemma driver_visits_rows:
  assumes pg: "lk_to_pg e (from_rows out) = Inr vardf3"
    and st: "append_stars e vardf3 path [0..<length vardf3] = Inr sts"
  shows "map star_ID sts = map ID out"
proof -
  from lk_to_pg_ids [OF pg] have l: "map fst vardf3 = [0..<length out]"
    and i: "map (ID \<circ> snd) vardf3 = map ID out"
    by (simp_all add: from_rows_labels from_rows_rows flip: map_map)
  from l have len: "length vardf3 = length out" by (metis length_map length_upt minus_nat.diff_0)
  with l have df: "vardf3 = from_rows (map snd vardf3)" by (simp add: frame_from_rows)
  have p: "map (loc vardf3) [0..<length vardf3] = map Some (map snd vardf3)"
    using positional_from_rows [of "map snd vardf3"] df by simp
  have "map (map_option ID \<circ> loc vardf3) [0..<length vardf3] =
          map (map_option ID) (map (loc vardf3) [0..<length vardf3])"
    by simp
  also have "\<dots> = map (map_option ID) (map Some (map snd vardf3))"
    by (simp only: p)
  also have "\<dots> = map Some (map (ID \<circ> snd) vardf3)"
    by (simp add: comp_def)
  finally have "map (map_option ID \<circ> loc vardf3) [0..<length vardf3] = map Some (map ID out)"
    by (simp only: i)
  with append_stars_ids [OF st] have "map Some (map star_ID sts) = map Some (map ID out)"
    by (simp only:)
  then have "map the (map Some (map star_ID sts)) = map the (map Some (map ID out))"
    by (simp only:)
  then show ?thesis by (simp add: comp_def)
qed

lemma jam_init_Inr:
  assumes "jam_init e a w0 = (Inr s, w1)"
  shows "\<exists>vardf w vardf2 w2 vardf3 sts.
    bind_vardf e a w0 = (Inr (Some vardf), w) \<and>
    lc_to_lk e vardf (arg_download_dir a) (arg_use_cached a) w = (Inr vardf2, w2) \<and>
    lk_to_pg e vardf2 = Inr vardf3 \<and>
    append_stars e vardf3 (arg_path a) [0..<length vardf3] = Inr sts \<and>
    nyquist_check sts w2 = (Inr (), w1) \<and>
    stars s = map Some sts"
  using assms unfolding jam_init_def
  by (auto split: prod.splits sum.splits option.splits)

lemma nyquist_check_trace:
  "nyquist_check sts w = (res, w1) \<Longrightarrow> set (trace w) \<subseteq> set (trace w1)"
proof (induction sts arbitrary: w)
  case Nil
  then show ?case by simp
next
  case (Cons x sts)
  show ?case
  proof (cases "star_f x \<noteq> [] \<and> fst (star_numax x) > last (star_f x)")
    case True
    with Cons.prems have "nyquist_check sts (emit (Warn (nyquist_message x)) w) = (res, w1)"
      by simp
    from Cons.IH [OF this] show ?thesis by (auto simp: emit_def)
  next
    case False
    with Cons.prems Cons.IH [of w] show ?thesis by (auto split: if_splits)
  qed
qed

lemma nyquist_check_total:
  "\<forall>x \<in> set sts. star_f x \<noteq> [] \<Longrightarrow> \<exists>w1. nyquist_check sts w = (Inr (), w1)"
  by (induction sts arbitrary: w) auto

lemma nyquist_check_warns:
  "nyquist_check sts w = (Inr u, w1) \<Longrightarrow> st \<in> set sts \<Longrightarrow>
   fst (star_numax st) > last (star_f st) \<Longrightarrow> Warn (nyquist_message st) \<in> set (trace w1)"
proof (induction sts arbitrary: w)
  case Nil
  then show ?case by simp
next
  case (Cons x sts)
  show ?case
  proof (cases "st = x")
    case True
    with Cons.prems have "nyquist_check sts (emit (Warn (nyquist_message st)) w) = (Inr u, w1)"
      by (auto split: if_splits)
    from nyquist_check_trace [OF this] show ?thesis by (auto simp: emit_def)
  next
    case False
    with Cons.prems have "st \<in> set sts" by simp
    with Cons.prems Cons.IH show ?thesis by (auto split: if_splits)
  qed
qed

lemma call_loop_trace:
  "call_loop e cfg slots w = (res, w') \<Longrightarrow> set (trace w) \<subseteq> set (trace w')"
proof (induction e cfg slots w arbitrary: res w' rule: call_loop.induct)
  case (1 e cfg w)
  then show ?case by simp
next
  case (2 e cfg rest w)
  then show ?case by simp
next
  case (3 e cfg st rest w)
  show ?case
  proof (cases "fit e st cfg")
    case None
    obtain r1 w1 where c: "call_loop e cfg rest (emit (Fit st cfg) w) = (r1, w1)"
      by (cases "call_loop e cfg rest (emit (Fit st cfg) w)")
    from "3.IH"(1) [OF refl None c] have "set (trace (emit (Fit st cfg) w)) \<subseteq> set (trace w1)" .
    moreover from "3.prems" None c have "w' = w1" by (auto simp: Let_def split: sum.splits)
    ultimately show ?thesis by (auto simp: emit_def)
  next
    case (Some ex)
    let ?w2 = "ledger_at Builtin_id (str_of ex)
                 (emit (Print (exception_message st ex)) (emit (Fit st cfg) w))"
    obtain r1 w1 where c: "call_loop e cfg rest ?w2 = (r1, w1)"
      by (cases "call_loop e cfg rest ?w2")
    from "3.IH"(2) [OF refl Some refl c] have "set (trace ?w2) \<subseteq> set (trace w1)" .
    moreover from "3.prems" Some c have "w' = w1" by (auto simp: Let_def split: sum.splits)
    ultimately show ?thesis by (auto simp: emit_def ledger_at_def)
  qed
qed

lemma call_loop_fits_all:
  "\<exists>slots w'. call_loop e cfg (map Some sts) w = (Inr slots, w') \<and>
     (\<forall>st \<in> set sts. Fit st cfg \<in> set (trace w'))"
proof (induction sts arbitrary: w)
  case Nil
  then show ?case by simp
next
  case (Cons x sts)
  let ?w1 = "emit (Fit x cfg) w"
  show ?case
  proof (cases "fit e x cfg")
    case None
    from Cons.IH [of ?w1] obtain slots w' where
      c: "call_loop e cfg (map Some sts) ?w1 = (Inr slots, w')"
      and f: "\<forall>st \<in> set sts. Fit st cfg \<in> set (trace w')" by blast
    from call_loop_trace [OF c] have "Fit x cfg \<in> set (trace w')" by (auto simp: emit_def)
    with None c f show ?thesis by (simp add: Let_def)
  next
    case (Some ex)
    let ?w2 = "ledger_at Builtin_id (str_of ex) (emit (Print (exception_message x ex)) ?w1)"
    from Cons.IH [of ?w2] obtain slots w' where
      c: "call_loop e cfg (map Some sts) ?w2 = (Inr slots, w')"
      and f: "\<forall>st \<in> set sts. Fit st cfg \<in> set (trace w')" by blast
    from call_loop_trace [OF c] have "Fit x cfg \<in> set (trace w')"
      by (auto simp: emit_def ledger_at_def)
    with Some c f show ?thesis by (simp add: Let_def)
  qed
qed

lemma ledger_row_effect_no_failure:
  "\<not> fetch_fails e dl uc r \<Longrightarrow>
   failed_lk_query (row_effect e dl uc r w) = failed_lk_query w"
  by (auto simp: row_effect_def fetch_fails_def emit_def split: sum.splits)

lemma ledger_rows_effect_no_failure:
  "\<forall>r \<in> set rows. \<not> fetch_fails e dl uc r \<Longrightarrow>
   failed_lk_query (rows_effect e dl uc rows w) = failed_lk_query w"
  by (induction rows arbitrary: w) (auto simp: ledger_row_effect_no_failure split: sum.splits)

lemma nyquist_check_ledger:
  "nyquist_check sts w = (res, w1) \<Longrightarrow> failed_lk_query w1 = failed_lk_query w"
proof (induction sts arbitrary: w)
  case Nil
  then show ?case by simp
next
  case (Cons x sts)
  show ?case
  proof (cases "star_f x \<noteq> [] \<and> fst (star_numax x) > last (star_f x)")
    case True
    with Cons.prems have "nyquist_check sts (emit (Warn (nyquist_message x)) w) = (res, w1)"
      by simp
    from Cons.IH [OF this] show ?thesis by (simp add: emit_def)
  next
    case False
    with Cons.prems Cons.IH [of w] show ?thesis by (auto split: if_splits)
  qed
qed

lemma call_loop_all_succeed:
  "\<forall>st \<in> set sts. fit e st cfg = None \<Longrightarrow>
   call_loop e cfg (map Some sts) w =
     (Inr (map (\<lambda>st. None) sts), w\<lparr>trace := trace w @ map (\<lambda>st. Fit st cfg) sts\<rparr>)"
proof (induction sts arbitrary: w)
  case Nil
  then show ?case by simp
next
  case (Cons x sts)
  then have x: "fit e x cfg = None" and rest: "\<forall>st \<in> set sts. fit e st cfg = None" by auto
  show ?case using x Cons.IH [OF rest, of "emit (Fit x cfg) w"] by (simp add: emit_def)
qed

subsection \<open>The small batch, evaluated\<close>

lemmas example_defs =
  example_env_def example_row_def row_A_def row_B_def row_C_def row_bad_file_def row_tuple_def
  example_args_def example_cfg_def empty_world_def series_A_def example_resolved_def
  query_B_def example_world_def example_star_def example_session_def warned_world_def

lemma example_run:
  "lc_to_lk example_env (from_rows [row_A, row_B, row_C]) (Some ''.lightkurve-cache'') False
     empty_world = (Inr example_resolved, example_world)"
  by (simp add: lc_to_lk_rows row_outcome_def row_effect_def example_defs sort_lc_def
      arr_to_lk_def tinyoffset_def emit_def ledger_at_def D_of_def)

lemma example_bind:
  "bind_vardf example_env (example_args (PathStr ''stars.csv'')) empty_world =
     (Inr (Some (from_rows [row_A, row_B, row_C])), empty_world)"
  by (simp add: bind_vardf_def after_tabular_def arg_truthy_def example_env_def
      example_args_def)

lemma example_lk_to_pg: "lk_to_pg example_env example_resolved = Inr example_pg"
  by (simp add: example_resolved_def example_pg_def from_rows_def example_env_def row_C_def
      example_row_def)

lemma example_append_stars:
  "append_stars example_env example_pg (Some ''test/output'') [0..<length example_pg] =
     Inr [example_star ''A'', example_star ''C'']"
  by (simp add: example_pg_def from_rows_def loc_def new_star_def example_env_def row_A_def
      row_C_def example_row_def example_star_def upt_rec)

lemma example_nyquist:
  "nyquist_check [example_star ''A'', example_star ''C''] example_world =
     (Inr (), warned_world)"
  by (simp add: example_star_def warned_world_def emit_def nyquist_message_def)

lemma example_init:
  "jam_init example_env (example_args (PathStr ''stars.csv'')) empty_world =
     (Inr example_session, warned_world)"
proof -
  have a: "arg_download_dir (example_args (PathStr ''stars.csv'')) = Some ''.lightkurve-cache''"
    "arg_use_cached (example_args (PathStr ''stars.csv'')) = False"
    "arg_path (example_args (PathStr ''stars.csv'')) = Some ''test/output''"
    by (simp_all add: example_args_def)
  show ?thesis
    by (simp only: jam_init_def example_bind a example_run example_lk_to_pg
        example_append_stars example_nyquist example_session_def
        prod.case sum.case option.case list.map)
qed

lemma example_other_bind:
  "bind_vardf example_env (example_args (PathStr ''other.csv'')) empty_world =
     (Inr (Some (from_rows ([row_C] @ row_bad_file # [row_A]))), empty_world)"
  by (simp add: bind_vardf_def after_tabular_def arg_truthy_def example_env_def
      example_args_def)

lemma example_prefix_run:
  "lc_to_lk example_env (from_rows [row_C]) (Some ''.lightkurve-cache'') False empty_world =
     (Inr (from_rows [row_C]), empty_world)"
  by (simp add: lc_to_lk_rows row_outcome_def row_effect_def example_defs)

lemma example_run_split:
  "lc_to_lk example_env (from_rows ([row_A] @ row_B # [row_C])) (Some ''.lightkurve-cache'')
     False empty_world = (Inr example_resolved, example_world)"
  using example_run by simp

lemma example_survivors:
  "filter (\<lambda>r. \<not> fetch_fails example_env (Some ''.lightkurve-cache'') False r)
     [row_A, row_B, row_C] = [row_A, row_C]"
  by (simp add: fetch_fails_def row_A_def row_B_def row_C_def example_row_def example_env_def)

lemma quiet_bind:
  "bind_vardf quiet_env (example_args (PathStr ''stars.csv'')) empty_world =
     (Inr (Some (from_rows [row_A, row_C])), empty_world)"
  by (simp add: bind_vardf_def after_tabular_def arg_truthy_def quiet_env_def example_env_def
      example_args_def)

lemma quiet_run:
  "lc_to_lk quiet_env (from_rows [row_A, row_C]) (Some ''.lightkurve-cache'') False
     empty_world = (Inr example_resolved, empty_world)"
  by (simp add: lc_to_lk_rows row_outcome_def row_effect_def quiet_env_def example_defs
      sort_lc_def arr_to_lk_def tinyoffset_def)

lemma quiet_lk_to_pg: "lk_to_pg quiet_env example_resolved = Inr example_pg"
  by (simp add: example_resolved_def example_pg_def from_rows_def quiet_env_def example_env_def
      row_C_def example_row_def)

lemma quiet_append_stars:
  "append_stars quiet_env example_pg (Some ''test/output'') [0..<length example_pg] =
     Inr [example_star ''A'', example_star ''C'']"
  by (simp add: example_pg_def from_rows_def loc_def new_star_def quiet_env_def example_env_def
      row_A_def row_C_def example_row_def example_star_def upt_rec)

lemma quiet_nyquist:
  "nyquist_check [example_star ''A'', example_star ''C''] empty_world = (Inr (), quiet_world)"
  by (simp add: example_star_def quiet_world_def empty_world_def emit_def nyquist_message_def)

lemma quiet_init:
  "jam_init quiet_env (example_args (PathStr ''stars.csv'')) empty_world =
     (Inr example_session, quiet_world)"
proof -
  have a: "arg_download_dir (example_args (PathStr ''stars.csv'')) = Some ''.lightkurve-cache''"
    "arg_use_cached (example_args (PathStr ''stars.csv'')) = False"
    "arg_path (example_args (PathStr ''stars.csv'')) = Some ''test/output''"
    by (simp_all add: example_args_def)
  show ?thesis
    by (simp only: jam_init_def quiet_bind a quiet_run quiet_lk_to_pg quiet_append_stars
        quiet_nyquist example_session_def prod.case sum.case option.case list.map)
qed

lemma example_run_AC:
  "lc_to_lk example_env (from_rows ([row_A] @ [row_C])) (Some ''.lightkurve-cache'') False
     empty_world = (Inr example_resolved, empty_world)"
  by (simp add: lc_to_lk_rows row_outcome_def row_effect_def example_defs sort_lc_def
      arr_to_lk_def tinyoffset_def)

lemma example_run_BC:
  "lc_to_lk example_env (from_rows ([] @ [row_B, row_C])) (Some ''.lightkurve-cache'') False
     empty_world = (Inr (from_rows [row_C]), example_world)"
  by (simp add: lc_to_lk_rows row_outcome_def row_effect_def example_defs emit_def ledger_at_def
      D_of_def)

lemma example_run_U:
  "lc_to_lk example_env (from_rows ([row_A, row_B] @ row_U # [row_C]))
     (Some ''.lightkurve-cache'') False empty_world = (Inr resolved_U, example_world)"
  by (simp add: lc_to_lk_rows row_outcome_def row_effect_def example_defs row_U_def
      resolved_U_def series_U_def sort_lc_def arr_to_lk_def tinyoffset_def emit_def
      ledger_at_def D_of_def)

lemma example_run_pre_post:
  "lc_to_lk example_env (from_rows ([row_A, row_B] @ [row_C])) (Some ''.lightkurve-cache'')
     False empty_world = (Inr example_resolved, example_world)"
  using example_run by simp

lemma example_survivors_AB:
  "filter (\<lambda>x. \<not> fetch_fails example_env (Some ''.lightkurve-cache'') False x) [row_A, row_B] =
     [row_A]"
  by (simp add: fetch_fails_def row_A_def row_B_def example_row_def example_env_def)

section \<open>The claims\<close>

text \<open>
  Claim C1, at a batch of five stars where the fit of the third raises. The message is
  printed with the star's identifier, the class and the arguments of the exception, and
  the other four fits are made and their slots released. The ledger entry is not keyed by
  the star's identifier: the handler writes under the name \<^verbatim>\<open>id\<close>, which in
  \<^verbatim>\<open>__call__\<close> is the built-in function, so the ledger has no entry for star \<open>C\<close>.
\<close>

theorem fit_failure_ledger_key:
  "fst (jam_call example_env example_cfg five_session empty_world) =
     Inr \<lparr>stars = [None, None, Some (example_star ''C''), None, None],
          pb_model_type = Some ''simple''\<rparr> \<and>
   Print (''Star C produced an exception of type RuntimeError occurred. Arguments:'' @ nl @
          ''(did not converge,)'')
     \<in> set (trace (snd (jam_call example_env example_cfg five_session empty_world))) \<and>
   failed_lk_query (snd (jam_call example_env example_cfg five_session empty_world)) =
     [(Builtin_id, ''did not converge'')] \<and>
   map_of (failed_lk_query (snd (jam_call example_env example_cfg five_session empty_world)))
     (Star_id ''C'') = None"
  by (simp add: jam_call_def five_session_def example_env_def example_star_def example_cfg_def
      empty_world_def emit_def ledger_at_def Let_def exception_message_def nl_def)

text \<open>
  Claim C2. A row with an empty time series and no power spectrum whose archive query
  raises, whatever the exception, in a batch whose other rows resolve: the resolver
  returns, and the table it returns is the one it returns for the batch without that
  row; the ledger then holds exactly one entry under the row's identifier, with the text
  of the exception, and every other entry of the ledger is as the batch without the row
  leaves it; the row is absent from the returned table, and so from every star the
  constructor builds from it. Identifiers are unique within a batch, and the ledger has
  one row per label.
\<close>

theorem fetch_failure_isolated:
  assumes ts: "timeseries r = Empty" and np: "\<not> truthy (psd r)"
    and q: "query_lightkurve e (ID r) dl uc (D_of r) = Inl exc"
    and d: "distinct (map ID (pre @ r # post))"
    and dk: "distinct (map fst (failed_lk_query w))"
    and others: "lc_to_lk e (from_rows (pre @ post)) dl uc w = (Inr vardf', wq)"
  shows "\<exists>w'. lc_to_lk e (from_rows (pre @ r # post)) dl uc w = (Inr vardf', w') \<and>
           map_of (failed_lk_query w') (Star_id (ID r)) = Some (str_of exc) \<and>
           length (filter (\<lambda>kv. fst kv = Star_id (ID r)) (failed_lk_query w')) = 1 \<and>
           (\<forall>k. k \<noteq> Star_id (ID r) \<longrightarrow>
              map_of (failed_lk_query w') k = map_of (failed_lk_query wq) k) \<and>
           ID r \<notin> ID ` snd ` set vardf' \<and>
           (\<forall>a wa s w1 st.
              bind_vardf e a wa = (Inr (Some (from_rows (pre @ r # post))), w) \<and>
              arg_download_dir a = dl \<and> arg_use_cached a = uc \<and>
              jam_init e a wa = (Inr s, w1) \<and> Some st \<in> set (stars s) \<longrightarrow>
              star_ID st \<noteq> ID r)"
proof -
  from others obtain out where out: "rows_outcome e dl uc (pre @ post) = Inr out"
    and df: "vardf' = from_rows out" and wq: "wq = rows_effect e dl uc (pre @ post) w"
    by (rule lc_to_lk_InrD)
  from out obtain a b where a: "rows_outcome e dl uc pre = Inr a"
    and b: "rows_outcome e dl uc post = Inr b" and ab: "out = a @ b"
    by (auto simp: rows_outcome_append split: sum.splits)
  have r_out: "row_outcome e dl uc r = Inr None"
    using ts np q by (simp add: row_outcome_def)
  let ?w1 = "rows_effect e dl uc pre w"
  let ?w2 = "row_effect e dl uc r ?w1"
  let ?w' = "rows_effect e dl uc post ?w2"
  have eff: "rows_effect e dl uc (pre @ r # post) w = ?w'"
    using r_out by (simp add: rows_effect_append [OF a])
  have wq_eq: "wq = rows_effect e dl uc post ?w1"
    by (simp add: wq rows_effect_append [OF a])
  have 0: "lc_to_lk e (from_rows (pre @ r # post)) dl uc w = (Inr vardf', ?w')"
    by (simp add: lc_to_lk_rows rows_outcome_append a b r_out ab df eff)
  have key: "Star_id (ID r) \<notin> Star_id ` ID ` set post" using d by auto
  have "map_of (failed_lk_query ?w2) (Star_id (ID r)) = Some (str_of exc)"
    using ts np q by (simp add: row_effect_def ledger_at_def emit_def update_conv')
  then have 1: "map_of (failed_lk_query ?w') (Star_id (ID r)) = Some (str_of exc)"
    using ledger_rows_effect_other [OF key, of e dl uc ?w2] by simp
  have "distinct (map fst (failed_lk_query ?w'))"
    using dk by (simp add: ledger_rows_effect_distinct flip: eff)
  then have 2: "length (filter (\<lambda>kv. fst kv = Star_id (ID r)) (failed_lk_query ?w')) = 1"
    using 1 by (rule one_entry)
  have 3: "map_of (failed_lk_query ?w') k = map_of (failed_lk_query wq) k"
    if "k \<noteq> Star_id (ID r)" for k
    unfolding wq_eq
    by (rule ledger_rows_effect_cong) (rule ledger_row_effect_other [OF that])
  have "set (map ID out) \<subseteq> set (map ID pre) \<union> set (map ID post)"
    using rows_outcome_ID_list [OF a] rows_outcome_ID_list [OF b] ab by auto
  moreover have "ID r \<notin> set (map ID pre) \<union> set (map ID post)" using d by auto
  ultimately have absent: "ID r \<notin> set (map ID out)" by blast
  then have 4: "ID r \<notin> ID ` snd ` set vardf'"
    using from_rows_rows [of out] by (simp add: df image_image flip: set_map)
  have 5: "star_ID st \<noteq> ID r"
    if bind: "bind_vardf e a wa = (Inr (Some (from_rows (pre @ r # post))), w)"
      and dl: "arg_download_dir a = dl" and uc: "arg_use_cached a = uc"
      and init: "jam_init e a wa = (Inr s, w1)" and st: "Some st \<in> set (stars s)"
    for a wa s w1 st
  proof -
    from jam_init_Inr [OF init] obtain vardf3 sts where
      pg: "lk_to_pg e vardf' = Inr vardf3"
      and ap: "append_stars e vardf3 (arg_path a) [0..<length vardf3] = Inr sts"
      and ss: "stars s = map Some sts"
      using bind dl uc 0 by auto
    from driver_visits_rows [OF pg [unfolded df] ap] have "map star_ID sts = map ID out" .
    moreover from st ss have "st \<in> set sts" by auto
    ultimately have "star_ID st \<in> set (map ID out)" by (metis image_eqI set_map)
    with absent show ?thesis by auto
  qed
  from 0 1 2 3 4 5 show ?thesis by blast
qed

theorem fetch_failure_isolated_witness:
  "timeseries row_B = Empty \<and> \<not> truthy (psd row_B) \<and>
   query_lightkurve example_env (ID row_B) (Some ''.lightkurve-cache'') False (D_of row_B) =
     Inl (PyExc ''ValueError'' ''(no data,)'' ''no data'') \<and>
   distinct (map ID ([row_A] @ row_B # [row_C])) \<and>
   distinct (map fst (failed_lk_query empty_world)) \<and>
   lc_to_lk example_env (from_rows ([row_A] @ [row_C])) (Some ''.lightkurve-cache'') False
     empty_world = (Inr example_resolved, empty_world) \<and>
   lc_to_lk example_env (from_rows ([row_A] @ row_B # [row_C])) (Some ''.lightkurve-cache'')
     False empty_world = (Inr example_resolved, example_world) \<and>
   map_of (failed_lk_query example_world) (Star_id (ID row_B)) = Some ''no data'' \<and>
   length (filter (\<lambda>kv. fst kv = Star_id (ID row_B)) (failed_lk_query example_world)) = 1 \<and>
   map_of (failed_lk_query example_world) (Star_id (ID row_A)) =
     map_of (failed_lk_query empty_world) (Star_id (ID row_A)) \<and>
   ID row_B \<notin> ID ` snd ` set example_resolved \<and>
   star_ID (example_star ''A'') \<noteq> ID row_B \<and> star_ID (example_star ''C'') \<noteq> ID row_B"
proof -
  have h1: "timeseries row_B = Empty" and h2: "\<not> truthy (psd row_B)"
    by (simp_all add: row_B_def example_row_def)
  have h3: "query_lightkurve example_env (ID row_B) (Some ''.lightkurve-cache'') False
      (D_of row_B) = Inl (PyExc ''ValueError'' ''(no data,)'' ''no data'')"
    by (simp add: example_env_def)
  have h4: "distinct (map ID ([row_A] @ row_B # [row_C]))"
    by (simp add: row_A_def row_B_def row_C_def example_row_def)
  have h5: "distinct (map fst (failed_lk_query empty_world))"
    by (simp add: empty_world_def)
  note h6 = example_run_AC
  from fetch_failure_isolated [OF h1 h2 h3 h4 h5 h6] obtain w' where
    all: "lc_to_lk example_env (from_rows ([row_A] @ row_B # [row_C]))
            (Some ''.lightkurve-cache'') False empty_world = (Inr example_resolved, w') \<and>
          map_of (failed_lk_query w') (Star_id (ID row_B)) =
            Some (str_of (PyExc ''ValueError'' ''(no data,)'' ''no data'')) \<and>
          length (filter (\<lambda>kv. fst kv = Star_id (ID row_B)) (failed_lk_query w')) = 1 \<and>
          (\<forall>k. k \<noteq> Star_id (ID row_B) \<longrightarrow>
             map_of (failed_lk_query w') k = map_of (failed_lk_query empty_world) k) \<and>
          ID row_B \<notin> ID ` snd ` set example_resolved \<and>
          (\<forall>a wa s w1 st.
             bind_vardf example_env a wa =
               (Inr (Some (from_rows ([row_A] @ row_B # [row_C]))), empty_world) \<and>
             arg_download_dir a = Some ''.lightkurve-cache'' \<and> arg_use_cached a = False \<and>
             jam_init example_env a wa = (Inr s, w1) \<and> Some st \<in> set (stars s) \<longrightarrow>
             star_ID st \<noteq> ID row_B)" ..
  note r = all [THEN conjunct1]
  note l1 = all [THEN conjunct2, THEN conjunct1]
  note l2 = all [THEN conjunct2, THEN conjunct2, THEN conjunct1]
  note l3 = all [THEN conjunct2, THEN conjunct2, THEN conjunct2, THEN conjunct1, rule_format]
  note ab = all [THEN conjunct2, THEN conjunct2, THEN conjunct2, THEN conjunct2, THEN conjunct1]
  note dr = all [THEN conjunct2, THEN conjunct2, THEN conjunct2, THEN conjunct2, THEN conjunct2,
    rule_format]
  from r example_run_split have w': "w' = example_world" by simp
  have c0: "lc_to_lk example_env (from_rows ([row_A] @ row_B # [row_C]))
      (Some ''.lightkurve-cache'') False empty_world = (Inr example_resolved, example_world)"
    using r w' by simp
  have c1: "map_of (failed_lk_query example_world) (Star_id (ID row_B)) = Some ''no data''"
    using l1 w' by simp
  have c2: "length (filter (\<lambda>kv. fst kv = Star_id (ID row_B))
      (failed_lk_query example_world)) = 1"
    using l2 w' by simp
  have "Star_id (ID row_A) \<noteq> Star_id (ID row_B)"
    by (simp add: row_A_def row_B_def example_row_def)
  from l3 [OF this] have c3: "map_of (failed_lk_query example_world) (Star_id (ID row_A)) =
      map_of (failed_lk_query empty_world) (Star_id (ID row_A))"
    using w' by simp
  have a: "arg_download_dir (example_args (PathStr ''stars.csv'')) = Some ''.lightkurve-cache''"
    "arg_use_cached (example_args (PathStr ''stars.csv'')) = False"
    by (simp_all add: example_args_def)
  have b: "bind_vardf example_env (example_args (PathStr ''stars.csv'')) empty_world =
      (Inr (Some (from_rows ([row_A] @ row_B # [row_C]))), empty_world)"
    using example_bind by simp
  have s: "Some (example_star ''A'') \<in> set (stars example_session)"
    "Some (example_star ''C'') \<in> set (stars example_session)"
    by (simp_all add: example_session_def)
  have c5: "star_ID (example_star ''A'') \<noteq> ID row_B"
  proof (rule dr)
    from b a example_init s(1)
    show "bind_vardf example_env (example_args (PathStr ''stars.csv'')) empty_world =
        (Inr (Some (from_rows ([row_A] @ row_B # [row_C]))), empty_world) \<and>
      arg_download_dir (example_args (PathStr ''stars.csv'')) = Some ''.lightkurve-cache'' \<and>
      arg_use_cached (example_args (PathStr ''stars.csv'')) = False \<and>
      jam_init example_env (example_args (PathStr ''stars.csv'')) empty_world =
        (Inr example_session, warned_world) \<and>
      Some (example_star ''A'') \<in> set (stars example_session)"
      by (intro conjI)
  qed
  have c6: "star_ID (example_star ''C'') \<noteq> ID row_B"
  proof (rule dr)
    from b a example_init s(2)
    show "bind_vardf example_env (example_args (PathStr ''stars.csv'')) empty_world =
        (Inr (Some (from_rows ([row_A] @ row_B # [row_C]))), empty_world) \<and>
      arg_download_dir (example_args (PathStr ''stars.csv'')) = Some ''.lightkurve-cache'' \<and>
      arg_use_cached (example_args (PathStr ''stars.csv'')) = False \<and>
      jam_init example_env (example_args (PathStr ''stars.csv'')) empty_world =
        (Inr example_session, warned_world) \<and>
      Some (example_star ''C'') \<in> set (stars example_session)"
      by (intro conjI)
  qed
  from h1 h2 h3 h4 h5 h6 c0 c1 c2 c3 ab c5 c6 show ?thesis by (intro conjI)
qed

text \<open>
  Claim C3, at a \<^verbatim>\<open>dictlike\<close> that \<^verbatim>\<open>from_records\<close> rejects with a \<^verbatim>\<open>TypeError\<close>:
  the message is printed, and then the constructor reads \<^verbatim>\<open>vardf\<close>, which no statement
  has assigned, and raises \<^verbatim>\<open>UnboundLocalError\<close>. Nothing catches it.
\<close>

theorem unconvertible_dictlike_escapes:
  "jam_init example_env (example_args (Tabular [])) empty_world =
     (Inl (unbound_local_error ''vardf''), emit (Print unrecognized_message) empty_world)"
  by (simp add: jam_init_def bind_vardf_def after_tabular_def arg_truthy_def example_env_def
      example_args_def type_error_def)

text \<open>
  Claim C4. When the resolver returns, the rows of its table are the rows of the input
  whose fetch did not fail, in the order of the input, each changed in its time-series
  cell at most; the table is labelled \<open>0, 1, 2, \<dots>\<close> without gaps, so that looking up
  the positions \<open>0\<close> to \<open>len - 1\<close> meets each row once, in order; and the stars that the
  driver builds by these lookups, after the converter, are one per surviving row, in
  order.
\<close>

theorem resolution_keeps_order_and_reindexes:
  assumes run: "lc_to_lk e (from_rows rows) dl uc w = (Inr vardf', w')"
  shows "map fst vardf' = [0..<length vardf'] \<and>
         list_all2 (\<lambda>r' r. r' = r\<lparr>timeseries := timeseries r'\<rparr>) (map snd vardf')
           (filter (\<lambda>r. \<not> fetch_fails e dl uc r) rows) \<and>
         map (loc vardf') [0..<length vardf'] = map Some (map snd vardf') \<and>
         (\<forall>vardf3 path sts.
            lk_to_pg e vardf' = Inr vardf3 \<and>
            append_stars e vardf3 path [0..<length vardf3] = Inr sts \<longrightarrow>
            map star_ID sts = map ID (filter (\<lambda>r. \<not> fetch_fails e dl uc r) rows))"
proof -
  from run obtain out where out: "rows_outcome e dl uc rows = Inr out"
    and df: "vardf' = from_rows out"
    by (rule lc_to_lk_InrD)
  have 1: "map fst vardf' = [0..<length vardf']"
    by (simp add: df from_rows_labels length_from_rows)
  have 2: "list_all2 (\<lambda>r' r. r' = r\<lparr>timeseries := timeseries r'\<rparr>) (map snd vardf')
             (filter (\<lambda>r. \<not> fetch_fails e dl uc r) rows)"
    using rows_outcome_survivors [OF out] by (simp add: df from_rows_rows)
  have 3: "map (loc vardf') [0..<length vardf'] = map Some (map snd vardf')"
    by (simp add: df from_rows_rows length_from_rows positional_from_rows)
  have 4: "map star_ID sts = map ID (filter (\<lambda>r. \<not> fetch_fails e dl uc r) rows)"
    if "lk_to_pg e vardf' = Inr vardf3"
      and "append_stars e vardf3 path [0..<length vardf3] = Inr sts" for vardf3 path sts
    using driver_visits_rows [of e out vardf3 path sts] that rows_outcome_ID_list [OF out]
    by (simp add: df)
  from 1 2 3 4 show ?thesis by blast
qed

theorem resolution_keeps_order_and_reindexes_witness:
  "lc_to_lk example_env (from_rows [row_A, row_B, row_C]) (Some ''.lightkurve-cache'') False
     empty_world = (Inr example_resolved, example_world) \<and>
   map fst example_resolved = [0..<length example_resolved] \<and>
   list_all2 (\<lambda>r' r. r' = r\<lparr>timeseries := timeseries r'\<rparr>) (map snd example_resolved)
     [row_A, row_C] \<and>
   map (loc example_resolved) [0..<length example_resolved] =
     map Some (map snd example_resolved) \<and>
   lk_to_pg example_env example_resolved = Inr example_pg \<and>
   append_stars example_env example_pg (Some ''test/output'') [0..<length example_pg] =
     Inr [example_star ''A'', example_star ''C''] \<and>
   map star_ID [example_star ''A'', example_star ''C''] = map ID [row_A, row_C]"
proof -
  note t = resolution_keeps_order_and_reindexes [OF example_run, unfolded example_survivors]
  from t have "map star_ID [example_star ''A'', example_star ''C''] = map ID [row_A, row_C]"
    using example_lk_to_pg example_append_stars by blast
  with t example_run example_lk_to_pg example_append_stars show ?thesis by blast
qed

text \<open>
  Claim C5. A row whose time series is the path of a two-column file, in a batch whose
  other rows resolve: the resolver returns, with the world the other rows leave; the row
  lands behind the surviving rows that precede it, between the rows the batch without it
  gives; its cell holds a series that is sorted ascending by time and whose rows are the
  rows of the file with 1 added to the second column. Where the file is in strictly
  ascending order of time already, the second column is the file's second column plus 1,
  entry by entry.
\<close>

theorem file_series_offset_and_sorted:
  assumes ts: "timeseries r = Str p" and g: "genfromtxt e p = Inr td"
    and others: "lc_to_lk e (from_rows (pre @ post)) dl uc w = (Inr vardf0, wq)"
  shows "\<exists>vardf' lc k.
           lc_to_lk e (from_rows (pre @ r # post)) dl uc w = (Inr vardf', wq) \<and>
           k = length (filter (\<lambda>x. \<not> fetch_fails e dl uc x) pre) \<and>
           k < length vardf' \<and>
           vardf' ! k = (k, r\<lparr>timeseries := Series lc\<rparr>) \<and>
           map snd vardf' =
             take k (map snd vardf0) @ r\<lparr>timeseries := Series lc\<rparr> # drop k (map snd vardf0) \<and>
           sorted (time lc) \<and>
           mset (zip (time lc) (flux lc)) = mset (map (\<lambda>(t, d). (t, d + 1)) td) \<and>
           (sorted_wrt (<) (map fst td) \<longrightarrow>
              time lc = map fst td \<and> flux lc = map (\<lambda>d. d + 1) (map snd td))"
proof -
  let ?raw = "arr_to_lk (map fst td) (map (\<lambda>x. x + tinyoffset) (map snd td)) (ID r)"
  let ?lc = "sort_lc ?raw"
  let ?r' = "r\<lparr>timeseries := Series ?lc\<rparr>"
  let ?k = "length (filter (\<lambda>x. \<not> fetch_fails e dl uc x) pre)"
  from others obtain out0 where out0: "rows_outcome e dl uc (pre @ post) = Inr out0"
    and df0: "vardf0 = from_rows out0" and wq: "wq = rows_effect e dl uc (pre @ post) w"
    by (rule lc_to_lk_InrD)
  from out0 obtain a b where a: "rows_outcome e dl uc pre = Inr a"
    and b: "rows_outcome e dl uc post = Inr b" and ab: "out0 = a @ b"
    by (auto simp: rows_outcome_append split: sum.splits)
  have r_out: "row_outcome e dl uc r = Inr (Some ?r')"
    using ts g by (simp add: row_outcome_def)
  have r_eff: "row_effect e dl uc r w1 = w1" for w1 using ts by (simp add: row_effect_def)
  let ?out = "a @ ?r' # b"
  have eff: "rows_effect e dl uc (pre @ r # post) w = wq"
    using r_out by (simp add: wq rows_effect_append [OF a] r_eff)
  have 0: "lc_to_lk e (from_rows (pre @ r # post)) dl uc w = (Inr (from_rows ?out), wq)"
    by (simp add: lc_to_lk_rows rows_outcome_append a b r_out eff)
  have la: "length a = ?k"
    using rows_outcome_survivors [OF a] by (rule list_all2_lengthD)
  have k: "?k < length (from_rows ?out)" by (simp add: length_from_rows la)
  have nth: "from_rows ?out ! ?k = (?k, ?r')"
    using k by (simp add: from_rows_def la [symmetric] nth_append)
  have ins: "map snd (from_rows ?out) = take ?k (map snd vardf0) @ ?r' # drop ?k (map snd vardf0)"
    by (simp add: from_rows_rows df0 ab la [symmetric])
  have len: "length (time ?raw) = length (flux ?raw)" by (simp add: arr_to_lk_def)
  have s: "sorted (time ?lc)" by (rule sort_lc_sorted)
  have z: "zip (time ?raw) (flux ?raw) = map (\<lambda>(t, d). (t, d + 1)) td"
    by (simp add: arr_to_lk_def tinyoffset_def zip_offset)
  have m: "mset (zip (time ?lc) (flux ?lc)) = mset (map (\<lambda>(t, d). (t, d + 1)) td)"
    using sort_lc_rows [OF len] by (simp only: z)
  have i: "sorted_wrt (<) (map fst td) \<longrightarrow>
             time ?lc = map fst td \<and> flux ?lc = map (\<lambda>d. d + 1) (map snd td)"
  proof
    assume "sorted_wrt (<) (map fst td)"
    then have "sorted (time ?raw)"
      by (simp add: arr_to_lk_def strict_sorted_imp_sorted)
    from sort_lc_id [OF len this] show
      "time ?lc = map fst td \<and> flux ?lc = map (\<lambda>d. d + 1) (map snd td)"
      by (simp add: arr_to_lk_def tinyoffset_def)
  qed
  from 0 k nth ins s m i show ?thesis by blast
qed

theorem file_series_offset_and_sorted_witness:
  "timeseries row_U = Str ''U.txt'' \<and>
   genfromtxt example_env ''U.txt'' = Inr [(2, 10), (1, 20)] \<and>
   lc_to_lk example_env (from_rows ([row_A, row_B] @ [row_C])) (Some ''.lightkurve-cache'')
     False empty_world = (Inr example_resolved, example_world) \<and>
   lc_to_lk example_env (from_rows ([row_A, row_B] @ row_U # [row_C]))
     (Some ''.lightkurve-cache'') False empty_world = (Inr resolved_U, example_world) \<and>
   resolved_U ! 1 = (1, row_U\<lparr>timeseries := Series series_U\<rparr>) \<and>
   map snd resolved_U =
     take 1 (map snd example_resolved) @ row_U\<lparr>timeseries := Series series_U\<rparr> #
     drop 1 (map snd example_resolved) \<and>
   time series_U = [1, 2] \<and> flux series_U = [21, 11] \<and>
   sorted (time series_U) \<and>
   mset (zip (time series_U) (flux series_U)) =
     mset (map (\<lambda>(t, d). (t, d + 1)) [(2, 10), (1, 20)]) \<and>
   timeseries row_A = Str ''A.txt'' \<and>
   genfromtxt example_env ''A.txt'' = Inr [(1, 10), (2, 20)] \<and>
   lc_to_lk example_env (from_rows ([] @ [row_B, row_C])) (Some ''.lightkurve-cache'') False
     empty_world = (Inr (from_rows [row_C]), example_world) \<and>
   sorted_wrt (<) (map fst [(1, 10), (2, 20 :: real)] :: real list) \<and>
   lc_to_lk example_env (from_rows ([] @ row_A # [row_B, row_C])) (Some ''.lightkurve-cache'')
     False empty_world = (Inr example_resolved, example_world) \<and>
   example_resolved ! 0 = (0, row_A\<lparr>timeseries := Series series_A\<rparr>) \<and>
   time series_A = map fst [(1, 10), (2, 20 :: real)] \<and>
   flux series_A = map (\<lambda>d. d + 1) (map snd [(1 :: real, 10), (2, 20)])"
proof -
  have u1: "timeseries row_U = Str ''U.txt''" by (simp add: row_U_def example_row_def)
  have u2: "genfromtxt example_env ''U.txt'' = Inr [(2, 10), (1, 20)]"
    by (simp add: example_env_def)
  note u3 = example_run_pre_post
  from file_series_offset_and_sorted [OF u1 u2 u3, unfolded example_survivors_AB]
  obtain vardf' lc where
    r: "lc_to_lk example_env (from_rows ([row_A, row_B] @ row_U # [row_C]))
          (Some ''.lightkurve-cache'') False empty_world = (Inr vardf', example_world)"
    and n: "vardf' ! 1 = (1, row_U\<lparr>timeseries := Series lc\<rparr>)"
    and i: "map snd vardf' =
          take 1 (map snd example_resolved) @ row_U\<lparr>timeseries := Series lc\<rparr> #
          drop 1 (map snd example_resolved)"
    and s: "sorted (time lc)"
    and m: "mset (zip (time lc) (flux lc)) = mset (map (\<lambda>(t, d). (t, d + 1)) [(2, 10), (1, 20)])"
    by auto
  from r example_run_U have v: "vardf' = resolved_U" by simp
  have "resolved_U ! 1 = (1, row_U\<lparr>timeseries := Series series_U\<rparr>)"
    by (simp add: resolved_U_def from_rows_def)
  with n v have "row_U\<lparr>timeseries := Series lc\<rparr> = row_U\<lparr>timeseries := Series series_U\<rparr>"
    by simp
  then have "timeseries (row_U\<lparr>timeseries := Series lc\<rparr>) =
      timeseries (row_U\<lparr>timeseries := Series series_U\<rparr>)"
    by (rule arg_cong)
  then have lc: "lc = series_U" by simp
  have c0: "lc_to_lk example_env (from_rows ([row_A, row_B] @ row_U # [row_C]))
      (Some ''.lightkurve-cache'') False empty_world = (Inr resolved_U, example_world)"
    using r v by simp
  have c1: "resolved_U ! 1 = (1, row_U\<lparr>timeseries := Series series_U\<rparr>)"
    using n v lc by simp
  have c2: "map snd resolved_U =
      take 1 (map snd example_resolved) @ row_U\<lparr>timeseries := Series series_U\<rparr> #
      drop 1 (map snd example_resolved)"
    using i v lc by simp
  have c3: "time series_U = [1, 2]" and c4: "flux series_U = [21, 11]"
    by (simp_all add: series_U_def)
  have c5: "sorted (time series_U)" using s lc by simp
  have c6: "mset (zip (time series_U) (flux series_U)) =
      mset (map (\<lambda>(t, d). (t, d + 1)) [(2, 10), (1, 20)])"
    using m lc by simp
  have a1: "timeseries row_A = Str ''A.txt''" by (simp add: row_A_def example_row_def)
  have a2: "genfromtxt example_env ''A.txt'' = Inr [(1, 10), (2, 20)]"
    by (simp add: example_env_def)
  note a3 = example_run_BC
  have a4: "sorted_wrt (<) (map fst [(1, 10), (2, 20 :: real)] :: real list)" by simp
  from file_series_offset_and_sorted [OF a1 a2 a3] a4
  obtain vardf'' lc' where
    r': "lc_to_lk example_env (from_rows ([] @ row_A # [row_B, row_C]))
          (Some ''.lightkurve-cache'') False empty_world = (Inr vardf'', example_world)"
    and n': "vardf'' ! 0 = (0, row_A\<lparr>timeseries := Series lc'\<rparr>)"
    and t': "time lc' = map fst [(1, 10), (2, 20 :: real)]"
    and f': "flux lc' = map (\<lambda>d. d + 1) (map snd [(1 :: real, 10), (2, 20)])"
    by auto
  from r' example_run have v': "vardf'' = example_resolved" by simp
  have "example_resolved ! 0 = (0, row_A\<lparr>timeseries := Series series_A\<rparr>)"
    by (simp add: example_resolved_def from_rows_def)
  with n' v' have "row_A\<lparr>timeseries := Series lc'\<rparr> = row_A\<lparr>timeseries := Series series_A\<rparr>"
    by simp
  then have "timeseries (row_A\<lparr>timeseries := Series lc'\<rparr>) =
      timeseries (row_A\<lparr>timeseries := Series series_A\<rparr>)"
    by (rule arg_cong)
  then have lc': "lc' = series_A" by simp
  have d0: "lc_to_lk example_env (from_rows ([] @ row_A # [row_B, row_C]))
      (Some ''.lightkurve-cache'') False empty_world = (Inr example_resolved, example_world)"
    using r' v' by simp
  have d1: "example_resolved ! 0 = (0, row_A\<lparr>timeseries := Series series_A\<rparr>)"
    using n' v' lc' by simp
  have d2: "time series_A = map fst [(1, 10), (2, 20 :: real)]" using t' lc' by simp
  have d3: "flux series_A = map (\<lambda>d. d + 1) (map snd [(1 :: real, 10), (2, 20)])"
    using f' lc' by simp
  from u1 u2 u3 c0 c1 c2 c3 c4 c5 c6 a1 a2 a3 a4 d0 d1 d2 d3 show ?thesis by (intro conjI)
qed

text \<open>
  Claim C6. A row with a power spectrum present (a true value in the \<^verbatim>\<open>psd\<close> cell):
  whatever its time-series cell holds, and whether the resolver returns or raises, none of
  the archive queries the resolver makes carries that row's identifier.
\<close>

theorem no_fetch_when_psd_present:
  assumes run: "lc_to_lk e (from_rows rows) dl uc w = (res, w')"
    and r: "r \<in> set rows" and p: "truthy (psd r)" and d: "distinct (map ID rows)"
  shows "\<exists>new. trace w' = trace w @ new \<and> (\<forall>a b c. Query (ID r) a b c \<notin> set new)"
proof -
  from run have w': "w' = rows_effect e dl uc rows w" by (simp add: lc_to_lk_rows)
  obtain new where n: "trace w' = trace w @ new"
    and q: "\<And>sid a b c. Query sid a b c \<in> set new \<Longrightarrow>
              \<exists>x \<in> set rows. ID x = sid \<and> timeseries x = Empty \<and> \<not> truthy (psd x)"
    unfolding w' using rows_effect_trace [of e dl uc rows w] by blast
  have "Query (ID r) a b c \<notin> set new" for a b c
  proof
    assume "Query (ID r) a b c \<in> set new"
    from q [OF this] obtain x where x: "x \<in> set rows" "ID x = ID r" "\<not> truthy (psd x)"
      by blast
    from d have "inj_on ID (set rows)" by (simp add: distinct_map)
    with x r have "x = r" by (auto dest: inj_onD)
    with x p show False by simp
  qed
  with n show ?thesis by blast
qed

theorem no_fetch_when_psd_present_witness:
  "lc_to_lk example_env (from_rows [row_A, row_B, row_C]) (Some ''.lightkurve-cache'') False
     empty_world = (Inr example_resolved, example_world) \<and>
   row_C \<in> set [row_A, row_B, row_C] \<and> truthy (psd row_C) \<and>
   distinct (map ID [row_A, row_B, row_C]) \<and>
   (\<exists>new. trace example_world = trace empty_world @ new \<and>
      (\<forall>a b c. Query (ID row_C) a b c \<notin> set new))"
proof -
  have h2: "row_C \<in> set [row_A, row_B, row_C]" by simp
  have h3: "truthy (psd row_C)" by (simp add: row_C_def example_row_def)
  have h4: "distinct (map ID [row_A, row_B, row_C])"
    by (simp add: row_A_def row_B_def row_C_def example_row_def)
  from no_fetch_when_psd_present [OF example_run h2 h3 h4] example_run h2 h3 h4
  show ?thesis by (intro conjI)
qed

text \<open>
  Claim C7. The stars that the constructor builds from the resolved table, each with a
  frequency axis that is not empty, and among them a star whose numax exceeds the last
  frequency of its axis: the constructor returns with a session of these stars, having
  warned with a message that ends in the star's identifier; and the batch call on that
  session, from any world, returns and has called the fit of that star.
\<close>

theorem nyquist_warning_and_fit_attempted:
  assumes bind: "bind_vardf e a wa = (Inr (Some vardf), w)"
    and run: "lc_to_lk e vardf (arg_download_dir a) (arg_use_cached a) w = (Inr vardf2, w2)"
    and pg: "lk_to_pg e vardf2 = Inr vardf3"
    and ap: "append_stars e vardf3 (arg_path a) [0..<length vardf3] = Inr sts"
    and axes: "\<forall>x \<in> set sts. star_f x \<noteq> []"
    and st: "st \<in> set sts"
    and ny: "fst (star_numax st) > last (star_f st)"
  shows "\<exists>s w1. jam_init e a wa = (Inr s, w1) \<and> stars s = map Some sts \<and>
           Warn (''Input numax is greater than Nyquist frequeny for '' @ star_ID st)
             \<in> set (trace w1) \<and>
           (\<forall>wc. \<exists>s' w3. jam_call e cfg s wc = (Inr s', w3) \<and> Fit st cfg \<in> set (trace w3))"
proof -
  from nyquist_check_total [OF axes, of w2] obtain w1 where
    ch: "nyquist_check sts w2 = (Inr (), w1)" by blast
  let ?s = "\<lparr>stars = map Some sts, pb_model_type = None\<rparr>"
  have 0: "jam_init e a wa = (Inr ?s, w1)"
    by (simp add: jam_init_def bind run pg ap ch)
  from nyquist_check_warns [OF ch st ny]
  have 1: "Warn (''Input numax is greater than Nyquist frequeny for '' @ star_ID st)
             \<in> set (trace w1)"
    by (simp add: nyquist_message_def)
  have 2: "\<exists>s' w3. jam_call e cfg ?s wc = (Inr s', w3) \<and> Fit st cfg \<in> set (trace w3)" for wc
  proof -
    from call_loop_fits_all [of e cfg sts wc] obtain slots w3 where
      "call_loop e cfg (map Some sts) wc = (Inr slots, w3)" "Fit st cfg \<in> set (trace w3)"
      using st by blast
    then show ?thesis by (simp add: jam_call_def)
  qed
  have 3: "stars ?s = map Some sts" by simp
  from 0 1 2 3 show ?thesis by blast
qed

theorem nyquist_warning_and_fit_attempted_witness:
  "bind_vardf example_env (example_args (PathStr ''stars.csv'')) empty_world =
     (Inr (Some (from_rows [row_A, row_B, row_C])), empty_world) \<and>
   lc_to_lk example_env (from_rows [row_A, row_B, row_C]) (Some ''.lightkurve-cache'') False
     empty_world = (Inr example_resolved, example_world) \<and>
   lk_to_pg example_env example_resolved = Inr example_pg \<and>
   append_stars example_env example_pg (Some ''test/output'') [0..<length example_pg] =
     Inr [example_star ''A'', example_star ''C''] \<and>
   star_f (example_star ''A'') \<noteq> [] \<and> star_f (example_star ''C'') \<noteq> [] \<and>
   example_star ''A'' \<in> set [example_star ''A'', example_star ''C''] \<and>
   fst (star_numax (example_star ''A'')) > last (star_f (example_star ''A'')) \<and>
   jam_init example_env (example_args (PathStr ''stars.csv'')) empty_world =
     (Inr example_session, warned_world) \<and>
   Warn (''Input numax is greater than Nyquist frequeny for '' @ star_ID (example_star ''A''))
     \<in> set (trace warned_world) \<and>
   (\<exists>s' w3. jam_call example_env example_cfg example_session warned_world = (Inr s', w3) \<and>
      Fit (example_star ''A'') example_cfg \<in> set (trace w3))"
proof -
  have a: "arg_download_dir (example_args (PathStr ''stars.csv'')) = Some ''.lightkurve-cache''"
    "arg_use_cached (example_args (PathStr ''stars.csv'')) = False"
    "arg_path (example_args (PathStr ''stars.csv'')) = Some ''test/output''"
    by (simp_all add: example_args_def)
  note h1 = example_bind
  have h2: "lc_to_lk example_env (from_rows [row_A, row_B, row_C])
      (arg_download_dir (example_args (PathStr ''stars.csv'')))
      (arg_use_cached (example_args (PathStr ''stars.csv''))) empty_world =
      (Inr example_resolved, example_world)"
    using example_run by (simp add: a)
  note h3 = example_lk_to_pg
  have h4: "append_stars example_env example_pg (arg_path (example_args (PathStr ''stars.csv'')))
      [0..<length example_pg] = Inr [example_star ''A'', example_star ''C'']"
    using example_append_stars by (simp add: a)
  have f: "star_f (example_star ''A'') \<noteq> []" "star_f (example_star ''C'') \<noteq> []"
    by (simp_all add: example_star_def)
  then have h5: "\<forall>x \<in> set [example_star ''A'', example_star ''C'']. star_f x \<noteq> []" by simp
  have h6: "example_star ''A'' \<in> set [example_star ''A'', example_star ''C'']" by simp
  have h7: "fst (star_numax (example_star ''A'')) > last (star_f (example_star ''A''))"
    by (simp add: example_star_def)
  from nyquist_warning_and_fit_attempted [OF h1 h2 h3 h4 h5 h6 h7, of example_cfg]
  obtain s w1 where
    i: "jam_init example_env (example_args (PathStr ''stars.csv'')) empty_world = (Inr s, w1)"
    and wn: "Warn (''Input numax is greater than Nyquist frequeny for '' @
          star_ID (example_star ''A'')) \<in> set (trace w1)"
    and c: "\<And>wc. \<exists>s' w3. jam_call example_env example_cfg s wc = (Inr s', w3) \<and>
          Fit (example_star ''A'') example_cfg \<in> set (trace w3)"
    by blast
  from i example_init have e: "s = example_session" "w1 = warned_world" by simp_all
  have c1: "jam_init example_env (example_args (PathStr ''stars.csv'')) empty_world =
      (Inr example_session, warned_world)"
    using i e by simp
  have c2: "Warn (''Input numax is greater than Nyquist frequeny for '' @
      star_ID (example_star ''A'')) \<in> set (trace warned_world)"
    using wn e by simp
  have c3: "\<exists>s' w3. jam_call example_env example_cfg example_session warned_world = (Inr s', w3) \<and>
      Fit (example_star ''A'') example_cfg \<in> set (trace w3)"
    using c [of warned_world] e by simp
  from h1 example_run h3 example_append_stars f h6 h7 c1 c2 c3 show ?thesis by (intro conjI)
qed

text \<open>
  Claim C8, at a table whose second row holds a true value of a built-in type in its
  time-series cell (a tuple of two arrays, say): the value is not a string, is true, and
  has no attribute \<^verbatim>\<open>__module__\<close>, so the test of line 67 raises \<^verbatim>\<open>AttributeError\<close>
  before the \<^verbatim>\<open>TypeError\<close> of line 70 is reached. The batch aborts all the same, with
  nothing written to the ledger.
\<close>

theorem bare_series_value_raises_attribute_error:
  "lc_to_lk example_env (from_rows [row_A, row_tuple, row_C]) (Some ''.lightkurve-cache'')
     False empty_world =
     (Inl (attribute_error ''object has no attribute __module__''), empty_world) \<and>
   cls (attribute_error ''object has no attribute __module__'') = ''AttributeError'' \<and>
   cls (type_error ''Can't handle this type of time series object'') = ''TypeError''"
  by (simp add: lc_to_lk_rows row_outcome_def row_effect_def example_defs attribute_error_def
      type_error_def)

text \<open>
  Claim C9. A row whose time series is a file path that fails to load, after rows that
  resolve: the resolver raises that exception, and the world is the one the preceding
  rows left, so the failure writes nothing into the ledger and no later row is processed
  (the result does not depend on them); the constructor raises the same exception.
\<close>

theorem file_load_failure_aborts_batch:
  assumes ts: "timeseries r = Str p" and g: "genfromtxt e p = Inl ex"
    and pre: "lc_to_lk e (from_rows pre) dl uc w = (Inr dfp, wp)"
  shows "lc_to_lk e (from_rows (pre @ r # post)) dl uc w = (Inl ex, wp) \<and>
         (\<forall>a wa.
            bind_vardf e a wa = (Inr (Some (from_rows (pre @ r # post))), w) \<and>
            arg_download_dir a = dl \<and> arg_use_cached a = uc \<longrightarrow>
            jam_init e a wa = (Inl ex, wp))"
proof -
  from pre obtain a where a: "rows_outcome e dl uc pre = Inr a"
    and wp: "wp = rows_effect e dl uc pre w"
    by (rule lc_to_lk_InrD)
  have r_out: "row_outcome e dl uc r = Inl ex" using ts g by (simp add: row_outcome_def)
  have r_eff: "row_effect e dl uc r wp = wp" using ts by (simp add: row_effect_def)
  have 1: "lc_to_lk e (from_rows (pre @ r # post)) dl uc w = (Inl ex, wp)"
    by (simp add: lc_to_lk_rows rows_outcome_append a r_out rows_effect_append [OF a] r_eff
        flip: wp)
  then have 2: "jam_init e a wa = (Inl ex, wp)"
    if "bind_vardf e a wa = (Inr (Some (from_rows (pre @ r # post))), w)"
      and "arg_download_dir a = dl" and "arg_use_cached a = uc" for a wa
    using that by (simp add: jam_init_def)
  from 1 2 show ?thesis by blast
qed

theorem file_load_failure_aborts_batch_witness:
  "timeseries row_bad_file = Str ''missing.txt'' \<and>
   genfromtxt example_env ''missing.txt'' = Inl (PyExc ''OSError'' ''(not found,)'' ''not found'') \<and>
   lc_to_lk example_env (from_rows [row_C]) (Some ''.lightkurve-cache'') False empty_world =
     (Inr (from_rows [row_C]), empty_world) \<and>
   lc_to_lk example_env (from_rows ([row_C] @ row_bad_file # [row_A]))
       (Some ''.lightkurve-cache'') False empty_world =
     (Inl (PyExc ''OSError'' ''(not found,)'' ''not found''), empty_world) \<and>
   jam_init example_env (example_args (PathStr ''other.csv'')) empty_world =
     (Inl (PyExc ''OSError'' ''(not found,)'' ''not found''), empty_world)"
proof -
  have h1: "timeseries row_bad_file = Str ''missing.txt''"
    by (simp add: row_bad_file_def example_row_def)
  have h2: "genfromtxt example_env ''missing.txt'' =
      Inl (PyExc ''OSError'' ''(not found,)'' ''not found'')"
    by (simp add: example_env_def)
  note h3 = example_prefix_run
  have a: "arg_download_dir (example_args (PathStr ''other.csv'')) = Some ''.lightkurve-cache''"
    "arg_use_cached (example_args (PathStr ''other.csv'')) = False"
    by (simp_all add: example_args_def)
  from file_load_failure_aborts_batch [OF h1 h2 h3, of "[row_A]"] example_other_bind a
  have "lc_to_lk example_env (from_rows ([row_C] @ row_bad_file # [row_A]))
          (Some ''.lightkurve-cache'') False empty_world =
        (Inl (PyExc ''OSError'' ''(not found,)'' ''not found''), empty_world)"
    and "jam_init example_env (example_args (PathStr ''other.csv'')) empty_world =
        (Inl (PyExc ''OSError'' ''(not found,)'' ''not found''), empty_world)"
    by blast+
  with h1 h2 h3 show ?thesis by blast
qed

text \<open>
  Claim C10. A \<^verbatim>\<open>dictlike\<close> of none of the accepted kinds and no \<^verbatim>\<open>ID\<close> argument:
  no branch assigns \<^verbatim>\<open>vardf\<close>, and the constructor raises \<^verbatim>\<open>UnboundLocalError\<close> (a
  \<^verbatim>\<open>NameError\<close>) at its first use, with nothing printed or warned before.
\<close>

theorem unsupported_dictlike_unbound_vardf:
  assumes "arg_dictlike a = Unsupported" and "\<not> arg_truthy (arg_ID a)"
  shows "bind_vardf e a w = (Inr None, w) \<and>
         jam_init e a w = (Inl (unbound_local_error ''vardf''), w) \<and>
         cls (unbound_local_error ''vardf'') = ''UnboundLocalError''"
  using assms by (simp add: bind_vardf_def jam_init_def unbound_local_error_def Let_def)

theorem unsupported_dictlike_unbound_vardf_witness:
  "arg_dictlike (example_args Unsupported) = Unsupported \<and>
   \<not> arg_truthy (arg_ID (example_args Unsupported)) \<and>
   bind_vardf example_env (example_args Unsupported) empty_world = (Inr None, empty_world) \<and>
   jam_init example_env (example_args Unsupported) empty_world =
     (Inl (unbound_local_error ''vardf''), empty_world) \<and>
   cls (unbound_local_error ''vardf'') = ''UnboundLocalError''"
proof -
  have h1: "arg_dictlike (example_args Unsupported) = Unsupported"
    by (simp add: example_args_def)
  have h2: "\<not> arg_truthy (arg_ID (example_args Unsupported))"
    by (simp add: example_args_def arg_truthy_def)
  from unsupported_dictlike_unbound_vardf [OF h1 h2, of example_env empty_world] h1 h2
  show ?thesis by (intro conjI) simp_all
qed

section \<open>Beyond the claims\<close>

text \<open>
  The path that line 70 is written for: a true object of a class defined outside
  \<^verbatim>\<open>lk.lightcurve\<close>, after rows that resolve, makes the resolver raise the
  \<^verbatim>\<open>TypeError\<close> of line 70; the world is the one the preceding rows left, and no later
  row is processed.
\<close>

theorem foreign_series_raises_type_error:
  assumes ts: "timeseries r = Foreign m"
    and pre: "lc_to_lk e (from_rows pre) dl uc w = (Inr dfp, wp)"
  shows "lc_to_lk e (from_rows (pre @ r # post)) dl uc w =
           (Inl (type_error ''Can't handle this type of time series object''), wp)"
proof -
  from pre obtain a where a: "rows_outcome e dl uc pre = Inr a"
    and wp: "wp = rows_effect e dl uc pre w"
    by (rule lc_to_lk_InrD)
  have r_out: "row_outcome e dl uc r =
      Inl (type_error ''Can't handle this type of time series object'')"
    using ts by (simp add: row_outcome_def)
  have r_eff: "row_effect e dl uc r wp = wp" using ts by (simp add: row_effect_def)
  show ?thesis
    by (simp add: lc_to_lk_rows rows_outcome_append a r_out rows_effect_append [OF a] r_eff
        flip: wp)
qed

theorem foreign_series_raises_type_error_witness:
  "timeseries row_foreign = Foreign ''lightkurve.periodogram'' \<and>
   lc_to_lk example_env (from_rows [row_C]) (Some ''.lightkurve-cache'') False empty_world =
     (Inr (from_rows [row_C]), empty_world) \<and>
   lc_to_lk example_env (from_rows ([row_C] @ row_foreign # [row_A]))
       (Some ''.lightkurve-cache'') False empty_world =
     (Inl (type_error ''Can't handle this type of time series object''), empty_world)"
proof -
  have h1: "timeseries row_foreign = Foreign ''lightkurve.periodogram''"
    by (simp add: row_foreign_def example_row_def)
  from foreign_series_raises_type_error [OF h1 example_prefix_run, of "[row_A]"] h1
    example_prefix_run
  show ?thesis by (intro conjI)
qed

text \<open>
  A batch without failures: when no row's fetch fails and no fit raises, the constructor
  builds one star per row of the table, in order, and leaves the ledger as it was; the
  batch call returns, has called the fit of each star once, in order, and leaves the
  ledger as it was.
\<close>

theorem well_formed_batch_fits_every_star:
  assumes bind: "bind_vardf e a wa = (Inr (Some (from_rows rows)), w)"
    and ok: "\<forall>r \<in> set rows. \<not> fetch_fails e (arg_download_dir a) (arg_use_cached a) r"
    and init: "jam_init e a wa = (Inr s, w1)"
    and fits: "\<forall>st. Some st \<in> set (stars s) \<longrightarrow> fit e st cfg = None"
  shows "\<exists>sts s' w2.
           stars s = map Some sts \<and> map star_ID sts = map ID rows \<and>
           failed_lk_query w1 = failed_lk_query w \<and>
           jam_call e cfg s w1 = (Inr s', w2) \<and>
           trace w2 = trace w1 @ map (\<lambda>st. Fit st cfg) sts \<and>
           failed_lk_query w2 = failed_lk_query w"
proof -
  let ?dl = "arg_download_dir a" and ?uc = "arg_use_cached a"
  from jam_init_Inr [OF init] bind obtain vardf2 w2 vardf3 sts where
    run: "lc_to_lk e (from_rows rows) ?dl ?uc w = (Inr vardf2, w2)"
    and pg: "lk_to_pg e vardf2 = Inr vardf3"
    and ap: "append_stars e vardf3 (arg_path a) [0..<length vardf3] = Inr sts"
    and ny: "nyquist_check sts w2 = (Inr (), w1)"
    and ss: "stars s = map Some sts"
    by auto
  from run obtain out where out: "rows_outcome e ?dl ?uc rows = Inr out"
    and df: "vardf2 = from_rows out" and w2: "w2 = rows_effect e ?dl ?uc rows w"
    by (rule lc_to_lk_InrD)
  have all: "filter (\<lambda>r. \<not> fetch_fails e ?dl ?uc r) rows = rows" using ok by simp
  have ids: "map star_ID sts = map ID rows"
    using driver_visits_rows [OF pg [unfolded df] ap] rows_outcome_ID_list [OF out]
    by (simp add: all)
  have l1: "failed_lk_query w1 = failed_lk_query w"
    using nyquist_check_ledger [OF ny] ledger_rows_effect_no_failure [OF ok, of w]
    by (simp add: w2)
  have "\<forall>st \<in> set sts. fit e st cfg = None" using fits ss by auto
  from call_loop_all_succeed [OF this, of w1]
  have call: "jam_call e cfg s w1 =
      (Inr \<lparr>stars = map (\<lambda>st. None) sts, pb_model_type = Some (model_type cfg)\<rparr>,
       w1\<lparr>trace := trace w1 @ map (\<lambda>st. Fit st cfg) sts\<rparr>)"
    by (simp add: jam_call_def ss)
  show ?thesis using ss ids l1 call by simp
qed

theorem well_formed_batch_fits_every_star_witness:
  "bind_vardf quiet_env (example_args (PathStr ''stars.csv'')) empty_world =
     (Inr (Some (from_rows [row_A, row_C])), empty_world) \<and>
   \<not> fetch_fails quiet_env (Some ''.lightkurve-cache'') False row_A \<and>
   \<not> fetch_fails quiet_env (Some ''.lightkurve-cache'') False row_C \<and>
   jam_init quiet_env (example_args (PathStr ''stars.csv'')) empty_world =
     (Inr example_session, quiet_world) \<and>
   (\<exists>sts s' w2.
      stars example_session = map Some sts \<and> map star_ID sts = map ID [row_A, row_C] \<and>
      failed_lk_query quiet_world = failed_lk_query empty_world \<and>
      jam_call quiet_env example_cfg example_session quiet_world = (Inr s', w2) \<and>
      trace w2 = trace quiet_world @ map (\<lambda>st. Fit st example_cfg) sts \<and>
      failed_lk_query w2 = failed_lk_query empty_world)"
proof -
  have a: "arg_download_dir (example_args (PathStr ''stars.csv'')) = Some ''.lightkurve-cache''"
    "arg_use_cached (example_args (PathStr ''stars.csv'')) = False"
    by (simp_all add: example_args_def)
  note h1 = quiet_bind
  have f: "\<not> fetch_fails quiet_env (Some ''.lightkurve-cache'') False row_A"
    "\<not> fetch_fails quiet_env (Some ''.lightkurve-cache'') False row_C"
    by (simp_all add: fetch_fails_def row_A_def row_C_def example_row_def)
  then have h2: "\<forall>r \<in> set [row_A, row_C].
      \<not> fetch_fails quiet_env (arg_download_dir (example_args (PathStr ''stars.csv'')))
          (arg_use_cached (example_args (PathStr ''stars.csv''))) r"
    by (simp add: a)
  have h4: "\<forall>st. Some st \<in> set (stars example_session) \<longrightarrow> fit quiet_env st example_cfg = None"
    by (simp add: quiet_env_def)
  from well_formed_batch_fits_every_star [OF h1 h2 quiet_init h4] h1 f quiet_init
  show ?thesis by (intro conjI)
qed

end
